theory Spec2Isabelle
  imports Main
begin

section \<open>Python values and library functions\<close>

text \<open>
  Every exception the two modules can meet is a value of \<open>error\<close>; a function that may
  raise returns \<open>error + 'a\<close> with \<open>Inl\<close> for the raised exception. The built-in
  exceptions that indexing, dictionary lookup and \<open>str.format\<close> raise are kept apart
  from the exceptions of the docker client and of the program.
  \<open>APIError\<close> carries the HTTP status code that \<open>run_backup_container\<close> inspects;
  \<open>NotFound\<close> is the docker client's exception for status 404.
\<close>

datatype builtin_exception =
    IndexError
  | KeyError string
  | ValueError
  | TypeError
  | AttributeError

datatype error =
    Builtin builtin_exception
  | NotFound
  | APIError nat
  | NullResource
  | ContainerNotStartedException string

text \<open>\<open>str.split(sep)\<close> for a one-character separator: never returns the empty list.\<close>

fun split_on :: "char \<Rightarrow> string \<Rightarrow> string list" where
  "split_on sep [] = [[]]"
| "split_on sep (x # xs) =
     (if x = sep then [] # split_on sep xs
      else (case split_on sep xs of
              [] \<Rightarrow> [[x]]
            | w # ws \<Rightarrow> (x # w) # ws))"

definition startswith :: "string \<Rightarrow> string \<Rightarrow> bool" where
  "startswith s p = (take (length p) s = p)"

definition removeprefix :: "string \<Rightarrow> string \<Rightarrow> string" where
  "removeprefix s p = (if startswith s p then drop (length p) s else s)"

text \<open>\<open>d.get(key, default)\<close> on a dictionary.\<close>

definition get_default :: "('k \<rightharpoonup> 'v) \<Rightarrow> 'k \<Rightarrow> 'v \<Rightarrow> 'v" where
  "get_default d k dflt = (case d k of None \<Rightarrow> dflt | Some v \<Rightarrow> v)"

section \<open>Data model\<close>

text \<open>
  The module-level names of the program: the label names imported from the constants
  module (whose values are not part of the two source files, so they stay parameters),
  the settings read from the process environment when the main module is loaded, the
  process environment itself, and two library functions: the digest of \<open>hashlib.md5\<close>,
  and what \<open>str.format\<close> does with a replacement field that is more than a plain
  name (attribute and index access, a conversion, a format specification), given the
  keyword arguments, the object found under the name, and the three parts of the field.
\<close>

record globals =
  COMPOSE_PROJECT_LABEL :: string
  ENABLE_LABEL :: string
  VOLUME_EXCLUDE_LABEL :: string
  VOLUME_INCLUDE_LABEL :: string
  INCLUDE_BIND_MOUNTS_LABEL :: string
  BACKUP_CONTAINER_IMAGE :: string
  BACKUP_CONTAINER_COMMAND :: string
  BACKUP_CONTAINER_VOLUMES :: string
  REQUIRE_ENABLE :: bool
  os_environ :: "string \<rightharpoonup> string"
  md5_hexdigest :: "string \<Rightarrow> string"
  format_object ::
    "(string \<rightharpoonup> string option) \<Rightarrow> string option \<Rightarrow> string \<Rightarrow> char option \<Rightarrow> string \<Rightarrow>
     builtin_exception + string"

text \<open>One entry of \<open>attrs["Mounts"]\<close>; the key \<open>Name\<close> may be missing.\<close>

record mount =
  mnt_Type :: string
  mnt_Name :: "string option"
  mnt_Source :: string
  mnt_Destination :: string

text \<open>A container object as the docker client hands it out.\<close>

record docker_container =
  dc_id :: string
  dc_name :: string
  dc_labels :: "string \<rightharpoonup> string"
  dc_image_tags :: "string list"
  dc_Env :: "string list"
  dc_Mounts :: "mount list"
  dc_status :: string
  dc_ExitCode :: int

text \<open>The typed dictionaries \<open>ContainerInfo\<close> and \<open>VolumeInfo\<close>.\<close>

record container_info =
  ci_id :: string
  ci_name :: string
  ci_labels :: "string \<rightharpoonup> string"
  ci_project :: "string option"
  ci_image :: string
  ci_environment :: "string \<rightharpoonup> string"

record volume_info =
  vi_type :: string
  vi_name :: "string option"
  vi_source :: string
  vi_destination :: string

section \<open>The world outside the program\<close>

text \<open>
  One value per \<open>logger\<close> call of the two modules, carrying the data the message
  interpolates; \<open>level_of\<close> is the logging method the call uses.
\<close>

datatype level = DEBUG | INFO | WARNING | ERROR

datatype log_record =
    Left_over_backup_container string
  | Skipping_backup_disabled string
  | Skipping_not_explicitly_enabled string
  | Skipping_bind_mount string string
  | Skipping_not_included string string
  | Skipping_excluded string string
  | Running_backup_container string string string
  | Already_a_container_with_this_name string
  | Created_backup_container string
  | Waited_for_30_seconds string string
  | Removing_container "string option"
  | Container_does_not_exist "string option"
  | Successfully_removed "string option"
  | Running_on_server string
  | Did_not_find_any_containers
  | Found_container string "string option"
  | Running_backup string string string "string option" string
  | Did_not_exit_with_success "string option"

fun level_of :: "log_record \<Rightarrow> level" where
  "level_of (Left_over_backup_container _) = WARNING"
| "level_of (Skipping_backup_disabled _) = INFO"
| "level_of (Skipping_not_explicitly_enabled _) = INFO"
| "level_of (Skipping_bind_mount _ _) = INFO"
| "level_of (Skipping_not_included _ _) = INFO"
| "level_of (Skipping_excluded _ _) = INFO"
| "level_of (Running_backup_container _ _ _) = DEBUG"
| "level_of (Already_a_container_with_this_name _) = WARNING"
| "level_of (Created_backup_container _) = DEBUG"
| "level_of (Waited_for_30_seconds _ _) = ERROR"
| "level_of (Removing_container _) = DEBUG"
| "level_of (Container_does_not_exist _) = WARNING"
| "level_of (Successfully_removed _) = DEBUG"
| "level_of (Running_on_server _) = INFO"
| "level_of Did_not_find_any_containers = INFO"
| "level_of (Found_container _ _) = DEBUG"
| "level_of (Running_backup _ _ _ _ _) = INFO"
| "level_of (Did_not_exit_with_success _) = WARNING"

text \<open>The value of one key of the \<open>volumes\<close> dictionary handed to the docker client.\<close>

record volume_binding =
  vb_bind :: string
  vb_mode :: string

text \<open>
  The arguments of one \<open>client.containers.run\<close> call. A key of \<open>volumes\<close> is
  \<open>volume["name"]\<close>, which is \<open>None\<close> for a mount without a name.
\<close>

record run_request =
  rr_image :: string
  rr_command :: string
  rr_name :: string
  rr_environment :: "string \<rightharpoonup> string"
  rr_volumes :: "string option \<rightharpoonup> volume_binding"

text \<open>
  The docker daemon, the host and the clock, as far as the program can observe them.
  The first six fields are the behaviour of the outside world and never change: what the
  daemon answers to the \<open>n\<close>-th call of the client depends on \<open>n\<close> and on the
  arguments. The other fields are the state the program moves: the clock (in the units of
  \<open>time.time\<close>, advanced by \<open>time.sleep\<close> only), the number of client calls made,
  the run requests sent, the containers removed, and the log.
\<close>

record world =
  hostname :: string
  info_Name :: string
  listing :: "docker_container list"
  inspect :: "nat \<Rightarrow> string \<Rightarrow> error + docker_container"
  submit :: "nat \<Rightarrow> run_request \<Rightarrow> error + string"
  remove_failure :: "nat \<Rightarrow> string \<Rightarrow> error option"
  clock :: nat
  calls :: nat
  requests :: "run_request list"
  removed :: "string list"
  log :: "log_record list"

definition emit :: "log_record \<Rightarrow> world \<Rightarrow> world" where
  "emit r w = w\<lparr>log := log w @ [r]\<rparr>"

definition sleep :: "nat \<Rightarrow> world \<Rightarrow> world" where
  "sleep n w = w\<lparr>clock := clock w + n\<rparr>"

text \<open>
  \<open>client.containers.get\<close>: the docker client refuses a missing or empty id with
  \<open>NullResource\<close> before it asks the daemon; a removed container is not found.
\<close>

definition containers_get :: "string option \<Rightarrow> world \<Rightarrow> (error + docker_container) \<times> world" where
  "containers_get key w =
     (case key of
        None \<Rightarrow> (Inl NullResource, w)
      | Some k \<Rightarrow>
          if k = [] then (Inl NullResource, w)
          else if k \<in> set (removed w) then (Inl NotFound, w\<lparr>calls := calls w + 1\<rparr>)
          else (inspect w (calls w) k, w\<lparr>calls := calls w + 1\<rparr>))"

definition containers_list :: "world \<Rightarrow> docker_container list \<times> world" where
  "containers_list w = (listing w, w\<lparr>calls := calls w + 1\<rparr>)"

definition containers_run :: "run_request \<Rightarrow> world \<Rightarrow> (error + string) \<times> world" where
  "containers_run r w =
     (submit w (calls w) r, w\<lparr>calls := calls w + 1, requests := requests w @ [r]\<rparr>)"

text \<open>\<open>container.remove()\<close> on a container object obtained before.\<close>

definition container_remove :: "string \<Rightarrow> world \<Rightarrow> (error + unit) \<times> world" where
  "container_remove k w =
     (case remove_failure w (calls w) k of
        Some e \<Rightarrow> (Inl e, w\<lparr>calls := calls w + 1\<rparr>)
      | None \<Rightarrow> (Inr (), w\<lparr>calls := calls w + 1, removed := removed w @ [k]\<rparr>))"

definition get_server_name :: "world \<Rightarrow> string \<times> world" where
  "get_server_name w = (info_Name w, w\<lparr>calls := calls w + 1\<rparr>)"

section \<open>Eligibility filter: \<open>get_enabled_containers\<close>\<close>

text \<open>
  The dictionary comprehension over \<open>attrs["Config"]["Env"]\<close>: each item is split at
  every \<open>=\<close>; field 0 is the key and field 1 the value, so an item without \<open>=\<close> raises
  \<open>IndexError\<close>. A later item with the same key replaces the earlier value.
\<close>

fun environment_of :: "(string \<rightharpoonup> string) \<Rightarrow> string list \<Rightarrow> error + (string \<rightharpoonup> string)" where
  "environment_of acc [] = Inr acc"
| "environment_of acc (item # items) =
     (case split_on CHR ''='' item of
        k # v # _ \<Rightarrow> environment_of (acc(k \<mapsto> v)) items
      | _ \<Rightarrow> Inl (Builtin IndexError))"

text \<open>The dictionary literal \<open>container_info\<close>; \<open>container.image.tags[0]\<close> raises on an untagged image.\<close>

definition container_info_of :: "globals \<Rightarrow> docker_container \<Rightarrow> error + container_info" where
  "container_info_of G c =
     (case dc_image_tags c of
        [] \<Rightarrow> Inl (Builtin IndexError)
      | tag # _ \<Rightarrow>
          (case environment_of Map.empty (dc_Env c) of
             Inl e \<Rightarrow> Inl e
           | Inr env \<Rightarrow>
               Inr \<lparr> ci_id = dc_id c, ci_name = dc_name c, ci_labels = dc_labels c,
                     ci_project = dc_labels c (COMPOSE_PROJECT_LABEL G),
                     ci_image = tag, ci_environment = env \<rparr>))"

text \<open>
  The loop over \<open>client.containers.list()\<close>. \<open>self_container\<close> is the container found under
  the host name of the process, or \<open>None\<close>; \<open>containers\<close> accumulates the result.
\<close>

fun enabled_loop ::
  "globals \<Rightarrow> docker_container option \<Rightarrow> bool \<Rightarrow> docker_container list \<Rightarrow>
   container_info list \<Rightarrow> world \<Rightarrow> (error + container_info list) \<times> world" where
  "enabled_loop G self_container require_enabled [] containers w = (Inr containers, w)"
| "enabled_loop G self_container require_enabled (c # cs) containers w =
     (if (case self_container of None \<Rightarrow> False | Some s \<Rightarrow> dc_id c = dc_id s)
      then enabled_loop G self_container require_enabled cs containers w
      else (case container_info_of G c of
              Inl e \<Rightarrow> (Inl e, w)
            | Inr info \<Rightarrow>
                if startswith (ci_name info) ''garrison_''
                then enabled_loop G self_container require_enabled cs containers
                       (emit (Left_over_backup_container (ci_name info)) w)
                else if get_default (ci_labels info) (ENABLE_LABEL G) ''true'' = ''false''
                then enabled_loop G self_container require_enabled cs containers
                       (emit (Skipping_backup_disabled (ci_name info)) w)
                else if require_enabled
                        \<and> get_default (ci_labels info) (ENABLE_LABEL G) ''false'' \<noteq> ''true''
                then enabled_loop G self_container require_enabled cs containers
                       (emit (Skipping_not_explicitly_enabled (ci_name info)) w)
                else enabled_loop G self_container require_enabled cs (containers @ [info]) w))"

text \<open>
  \<open>contextlib.suppress(docker.errors.NotFound)\<close> around the lookup of the own container
  leaves \<open>self_container\<close> at \<open>None\<close>; any other exception of the lookup propagates.
\<close>

definition get_enabled_containers ::
  "globals \<Rightarrow> bool \<Rightarrow> world \<Rightarrow> (error + container_info list) \<times> world" where
  "get_enabled_containers G require_enabled w =
     (case containers_get (Some (hostname w)) w of
        (Inl e, w1) \<Rightarrow>
          if e = NotFound
          then (case containers_list w1 of
                  (cs, w2) \<Rightarrow> enabled_loop G None require_enabled cs [] w2)
          else (Inl e, w1)
      | (Inr self_container, w1) \<Rightarrow>
          (case containers_list w1 of
             (cs, w2) \<Rightarrow> enabled_loop G (Some self_container) require_enabled cs [] w2))"

section \<open>Volume selector: \<open>get_included_container_volumes\<close>\<close>

text \<open>
  The value of \<open>included_volumes\<close> and \<open>excluded_volumes\<close> after
  \<open>x = labels.get(LABEL); if x: x = x.split(",")\<close>: \<open>None\<close> when the label is missing,
  the string itself when it is empty (the empty string is false, so it is not split),
  and the list of fields otherwise.
\<close>

datatype label_value = Label_None | Label_str string | Label_list "string list"

definition split_label :: "string option \<Rightarrow> label_value" where
  "split_label v =
     (case v of
        None \<Rightarrow> Label_None
      | Some s \<Rightarrow> if s \<noteq> [] then Label_list (split_on CHR '','' s) else Label_str s)"

text \<open>\<open>sub in s\<close> for two strings: \<open>sub\<close> occurs in \<open>s\<close> as a substring.\<close>

fun str_contains :: "string \<Rightarrow> string \<Rightarrow> bool" where
  "str_contains [] sub = (sub = [])"
| "str_contains (c # cs) sub = (startswith (c # cs) sub \<or> str_contains cs sub)"

text \<open>\<open>included_volumes is not None and volume_name not in included_volumes\<close>\<close>

fun not_in_included :: "label_value \<Rightarrow> string \<Rightarrow> bool" where
  "not_in_included Label_None volume_name = False"
| "not_in_included (Label_str s) volume_name = (\<not> str_contains s volume_name)"
| "not_in_included (Label_list l) volume_name = (volume_name \<notin> set l)"

text \<open>\<open>excluded_volumes is not None and volume_name in excluded_volumes\<close>\<close>

fun in_excluded :: "label_value \<Rightarrow> string \<Rightarrow> bool" where
  "in_excluded Label_None volume_name = False"
| "in_excluded (Label_str s) volume_name = str_contains s volume_name"
| "in_excluded (Label_list l) volume_name = (volume_name \<in> set l)"

text \<open>
  \<open>volume.get("Name", volume["Source"])\<close>, with the prefix \<open>project_\<close> removed when the
  container has a project that is not the empty string.
\<close>

definition volume_name_of :: "container_info \<Rightarrow> mount \<Rightarrow> string" where
  "volume_name_of container volume =
     (let volume_name = (case mnt_Name volume of None \<Rightarrow> mnt_Source volume | Some n \<Rightarrow> n)
      in case ci_project container of
           None \<Rightarrow> volume_name
         | Some project \<Rightarrow>
             if project \<noteq> [] then removeprefix volume_name (project @ ''_'') else volume_name)"

definition volume_info_of :: "mount \<Rightarrow> volume_info" where
  "volume_info_of volume =
     \<lparr> vi_type = mnt_Type volume, vi_name = mnt_Name volume,
       vi_source = mnt_Source volume, vi_destination = mnt_Destination volume \<rparr>"

fun volumes_loop ::
  "container_info \<Rightarrow> bool \<Rightarrow> label_value \<Rightarrow> label_value \<Rightarrow> mount list \<Rightarrow>
   volume_info list \<Rightarrow> world \<Rightarrow> volume_info list \<times> world" where
  "volumes_loop container include_bind_mount included_volumes excluded_volumes [] volumes w =
     (volumes, w)"
| "volumes_loop container include_bind_mount included_volumes excluded_volumes (volume # rest)
     volumes w =
     (let volume_name = volume_name_of container volume in
      if \<not> include_bind_mount \<and> mnt_Type volume = ''bind''
      then volumes_loop container include_bind_mount included_volumes excluded_volumes rest volumes
             (emit (Skipping_bind_mount volume_name (ci_name container)) w)
      else if not_in_included included_volumes volume_name
      then volumes_loop container include_bind_mount included_volumes excluded_volumes rest volumes
             (emit (Skipping_not_included volume_name (ci_name container)) w)
      else if in_excluded excluded_volumes volume_name
      then volumes_loop container include_bind_mount included_volumes excluded_volumes rest volumes
             (emit (Skipping_excluded volume_name (ci_name container)) w)
      else volumes_loop container include_bind_mount included_volumes excluded_volumes rest
             (volumes @ [volume_info_of volume]) w)"

definition get_included_container_volumes ::
  "globals \<Rightarrow> container_info \<Rightarrow> bool \<Rightarrow> world \<Rightarrow> (error + volume_info list) \<times> world" where
  "get_included_container_volumes G container include_bind_mount w =
     (let included_volumes = split_label (ci_labels container (VOLUME_INCLUDE_LABEL G));
          excluded_volumes = split_label (ci_labels container (VOLUME_EXCLUDE_LABEL G))
      in case containers_get (Some (ci_id container)) w of
           (Inl e, w1) \<Rightarrow> (Inl e, w1)
         | (Inr docker_container, w1) \<Rightarrow>
             (case volumes_loop container include_bind_mount included_volumes excluded_volumes
                     (dc_Mounts docker_container) [] w1 of
                (volumes, w2) \<Rightarrow> (Inr volumes, w2)))"

section \<open>Command template: \<open>str.format\<close> with keyword arguments only\<close>

text \<open>
  A replacement field as the parser of \<open>str.format\<close> splits it: the field name, the
  conversion character after \<open>!\<close> if there is one, and the format specification after
  \<open>:\<close> (empty if there is none).
\<close>

datatype replacement_field = Replacement_field string "char option" string

definition cons_char :: "char \<Rightarrow> builtin_exception + (string \<times> 'a) \<Rightarrow> builtin_exception + (string \<times> 'a)" where
  "cons_char c r = (case r of Inl e \<Rightarrow> Inl e | Inr (name, x) \<Rightarrow> Inr (c # name, x))"

text \<open>
  The field name runs up to the first \<open>}\<close>, \<open>:\<close> or \<open>!\<close> outside square brackets;
  between \<open>[\<close> and the next \<open>]\<close> every character belongs to the name. A \<open>{\<close> outside
  brackets, or the end of the string, is a \<open>ValueError\<close>. The result is the name, the
  character that ended it, and the rest of the string.
\<close>

fun field_name_end :: "bool \<Rightarrow> string \<Rightarrow> builtin_exception + (string \<times> char \<times> string)" where
  "field_name_end in_brackets [] = Inl ValueError"
| "field_name_end True (c # cs) = cons_char c (field_name_end (c \<noteq> CHR '']'') cs)"
| "field_name_end False (c # cs) =
     (if c = CHR ''{'' then Inl ValueError
      else if c = CHR ''['' then cons_char c (field_name_end True cs)
      else if c = CHR ''}'' \<or> c = CHR '':'' \<or> c = CHR ''!'' then Inr ([], c, cs)
      else cons_char c (field_name_end False cs))"

text \<open>
  The format specification runs up to the \<open>}\<close> that closes the field; braces nest.
  \<open>depth\<close> is the number of braces opened inside the specification.
\<close>

fun format_spec_end :: "nat \<Rightarrow> string \<Rightarrow> builtin_exception + (string \<times> string)" where
  "format_spec_end depth [] = Inl ValueError"
| "format_spec_end depth (c # cs) =
     (if c = CHR ''{'' then cons_char c (format_spec_end (Suc depth) cs)
      else if c = CHR ''}'' then
        (case depth of
           0 \<Rightarrow> Inr ([], cs)
         | Suc d \<Rightarrow> cons_char c (format_spec_end d cs))
      else cons_char c (format_spec_end depth cs))"

definition with_format_spec ::
  "string \<Rightarrow> char option \<Rightarrow> string \<Rightarrow> builtin_exception + (replacement_field \<times> string)" where
  "with_format_spec field_name conversion s =
     (case format_spec_end 0 s of
        Inl e \<Rightarrow> Inl e
      | Inr (format_spec, rest) \<Rightarrow> Inr (Replacement_field field_name conversion format_spec, rest))"

text \<open>The text after an opening \<open>{\<close>, up to and including the closing \<open>}\<close>.\<close>

definition parse_field :: "string \<Rightarrow> builtin_exception + (replacement_field \<times> string)" where
  "parse_field s =
     (case field_name_end False s of
        Inl e \<Rightarrow> Inl e
      | Inr (field_name, c, rest) \<Rightarrow>
          if c = CHR ''}'' then Inr (Replacement_field field_name None [], rest)
          else if c = CHR ''!'' then
            (case rest of
               [] \<Rightarrow> Inl ValueError
             | conversion # rest1 \<Rightarrow>
                 (case rest1 of
                    [] \<Rightarrow> with_format_spec field_name (Some conversion) []
                  | c2 # rest2 \<Rightarrow>
                      if c2 = CHR ''}'' then Inr (Replacement_field field_name (Some conversion) [], rest2)
                      else if c2 \<noteq> CHR '':'' then Inl ValueError
                      else with_format_spec field_name (Some conversion) rest2))
          else with_format_spec field_name None rest)"

definition is_brace :: "char \<Rightarrow> bool" where
  "is_brace c = (c = CHR ''{'' \<or> c = CHR ''}'')"

text \<open>
  One step of the markup iterator on a string that is not empty: the literal text up to
  the next brace, then either nothing (end of the string, or a doubled brace, which
  adds one brace to the literal text) or a replacement field; and the rest of the string.
  A single \<open>}\<close>, and a \<open>{\<close> at the end of the string, are a \<open>ValueError\<close>.
\<close>

definition MarkupIterator_next ::
  "string \<Rightarrow> builtin_exception + (string \<times> replacement_field option \<times> string)" where
  "MarkupIterator_next s =
     (let literal = takeWhile (\<lambda>c. \<not> is_brace c) s in
      case dropWhile (\<lambda>c. \<not> is_brace c) s of
        [] \<Rightarrow> Inr (literal, None, [])
      | c # rest \<Rightarrow>
          (case rest of
             [] \<Rightarrow> Inl ValueError
           | c2 # rest2 \<Rightarrow>
               if c2 = c then Inr (literal @ [c], None, rest2)
               else if c = CHR ''}'' then Inl ValueError
               else (case parse_field rest of
                       Inl e \<Rightarrow> Inl e
                     | Inr (field, rest3) \<Rightarrow> Inr (literal, Some field, rest3))))"

definition is_digit :: "char \<Rightarrow> bool" where
  "is_digit c = (c \<in> set ''0123456789'')"

definition get_integer :: "string \<Rightarrow> nat" where
  "get_integer s = foldl (\<lambda>acc c. 10 * acc + (of_char c - 48)) 0 s"

definition PY_SSIZE_T_MAX :: nat where
  "PY_SSIZE_T_MAX = 9223372036854775807"

text \<open>
  The object a field name refers to. The first part of the name runs up to the first
  \<open>.\<close> or \<open>[\<close>. A number is an index into the positional arguments, and so is the empty
  name; \<open>format\<close> is called with keyword arguments only, so every index is out of range.
  Any other first part is looked up in the keyword arguments. The result is the object
  and the accessors that follow the first part.
\<close>

definition get_field_object ::
  "(string \<rightharpoonup> string option) \<Rightarrow> string \<Rightarrow> builtin_exception + (string option \<times> string)" where
  "get_field_object kwargs field_name =
     (let first = takeWhile (\<lambda>c. c \<noteq> CHR ''.'' \<and> c \<noteq> CHR ''['') field_name;
          rest = dropWhile (\<lambda>c. c \<noteq> CHR ''.'' \<and> c \<noteq> CHR ''['') field_name
      in if first \<noteq> [] \<and> list_all is_digit first
         then (if get_integer first > PY_SSIZE_T_MAX then Inl ValueError else Inl IndexError)
         else if first = [] then Inl IndexError
         else (case kwargs first of
                 None \<Rightarrow> Inl (KeyError first)
               | Some obj \<Rightarrow> Inr (obj, rest)))"

text \<open>\<open>str(obj)\<close> for the objects the program passes: strings and \<open>None\<close>.\<close>

definition py_str :: "string option \<Rightarrow> string" where
  "py_str obj = (case obj of None \<Rightarrow> ''None'' | Some s \<Rightarrow> s)"

definition render_field ::
  "globals \<Rightarrow> (string \<rightharpoonup> string option) \<Rightarrow> replacement_field \<Rightarrow> builtin_exception + string" where
  "render_field G kwargs field =
     (case field of
        Replacement_field field_name conversion format_spec \<Rightarrow>
          (case get_field_object kwargs field_name of
             Inl e \<Rightarrow> Inl e
           | Inr (obj, rest) \<Rightarrow>
               if rest = [] \<and> conversion = None \<and> format_spec = [] then Inr (py_str obj)
               else format_object G kwargs obj rest conversion format_spec))"

text \<open>The loop of \<open>str.format\<close> over the markup: the first error met is raised.\<close>

function build_string ::
  "globals \<Rightarrow> (string \<rightharpoonup> string option) \<Rightarrow> string \<Rightarrow> builtin_exception + string" where
  "build_string G kwargs s =
     (if s = [] then Inr []
      else (case MarkupIterator_next s of
              Inl e \<Rightarrow> Inl e
            | Inr (literal, field, rest) \<Rightarrow>
                (case (case field of None \<Rightarrow> Inr [] | Some f \<Rightarrow> render_field G kwargs f) of
                   Inl e \<Rightarrow> Inl e
                 | Inr text \<Rightarrow>
                     (case build_string G kwargs rest of
                        Inl e \<Rightarrow> Inl e
                      | Inr out \<Rightarrow> Inr (literal @ text @ out)))))"
  by pat_completeness auto

lemma cons_char_Inr:
  "cons_char c r = Inr (name, x) \<longleftrightarrow> (\<exists>n. r = Inr (n, x) \<and> name = c # n)"
  by (auto simp: cons_char_def split: sum.splits)

lemma field_name_end_shorter:
  "field_name_end b s = Inr (name, c, rest) \<Longrightarrow> length rest < length s"
proof (induction b s arbitrary: name rule: field_name_end.induct)
  case (1 in_brackets)
  then show ?case by simp
next
  case (2 c' cs)
  from "2.prems" obtain n where "field_name_end (c' \<noteq> CHR '']'') cs = Inr (n, c, rest)"
    by (auto simp: cons_char_Inr)
  from "2.IH"[OF this] show ?case by simp
next
  case (3 c' cs)
  show ?case
  proof (cases "c' = CHR ''[''")
    case True
    with "3.prems" obtain n where "field_name_end True cs = Inr (n, c, rest)"
      by (auto simp: cons_char_Inr)
    from "3.IH"(1)[OF _ True this] "3.prems" show ?thesis by (auto split: if_splits)
  next
    case False
    show ?thesis
    proof (cases "c' = CHR ''{'' \<or> c' = CHR ''}'' \<or> c' = CHR '':'' \<or> c' = CHR ''!''")
      case True
      with "3.prems" False show ?thesis by (auto split: if_splits)
    next
      case f: False
      with "3.prems" False obtain n where "field_name_end False cs = Inr (n, c, rest)"
        by (auto simp: cons_char_Inr)
      from "3.IH"(2)[OF _ False _ this] f show ?thesis by simp
    qed
  qed
qed

lemma format_spec_end_shorter:
  "format_spec_end d s = Inr (spec, rest) \<Longrightarrow> length rest < length s"
proof (induction d s arbitrary: spec rule: format_spec_end.induct)
  case (1 depth)
  then show ?case by simp
next
  case (2 depth c cs)
  show ?case
  proof (cases "c = CHR ''{''")
    case True
    with "2.prems" obtain n where "format_spec_end (Suc depth) cs = Inr (n, rest)"
      by (auto simp: cons_char_Inr)
    from "2.IH"(1)[OF True this] show ?thesis by simp
  next
    case False
    show ?thesis
    proof (cases "c = CHR ''}''")
      case True
      show ?thesis
      proof (cases depth)
        case 0
        with "2.prems" False True show ?thesis by simp
      next
        case (Suc d)
        with "2.prems" False True obtain n where "format_spec_end d cs = Inr (n, rest)"
          by (auto simp: cons_char_Inr)
        from "2.IH"(2)[OF False True Suc this] show ?thesis by simp
      qed
    next
      case f: False
      with "2.prems" False obtain n where "format_spec_end depth cs = Inr (n, rest)"
        by (auto simp: cons_char_Inr)
      from "2.IH"(3)[OF False f this] show ?thesis by simp
    qed
  qed
qed

lemma with_format_spec_shorter:
  "with_format_spec n c s = Inr (field, rest) \<Longrightarrow> length rest < length s"
  by (auto simp: with_format_spec_def split: sum.splits dest: format_spec_end_shorter)

lemma parse_field_shorter:
  assumes "parse_field s = Inr (field, rest)"
  shows "length rest < length s"
proof (cases "field_name_end False s")
  case (Inl e)
  with assms show ?thesis by (simp add: parse_field_def)
next
  case (Inr t)
  obtain n c r where t: "t = (n, c, r)" by (cases t)
  from field_name_end_shorter Inr t have l: "length r < length s" by blast
  show ?thesis
  proof (cases "c = CHR ''}''")
    case True
    with assms Inr t l show ?thesis by (simp add: parse_field_def)
  next
    case False
    show ?thesis
    proof (cases "c = CHR ''!''")
      case b: False
      with assms Inr t False have "with_format_spec n None r = Inr (field, rest)"
        by (simp add: parse_field_def)
      from with_format_spec_shorter[OF this] l show ?thesis by simp
    next
      case True
      with assms Inr t False l show ?thesis
        by (auto simp: parse_field_def split: list.splits if_splits
            dest!: with_format_spec_shorter)
    qed
  qed
qed

lemma MarkupIterator_next_shorter:
  assumes "MarkupIterator_next s = Inr (literal, field, rest)" and "s \<noteq> []"
  shows "length rest < length s"
proof (cases "dropWhile (\<lambda>c. \<not> is_brace c) s")
  case Nil
  with assms show ?thesis by (simp add: MarkupIterator_next_def)
next
  case (Cons c r)
  have "length (dropWhile (\<lambda>c. \<not> is_brace c) s) \<le> length s"
    by (rule length_dropWhile_le)
  with Cons have l: "Suc (length r) \<le> length s" by simp
  show ?thesis
  proof (cases r)
    case Nil
    with assms Cons show ?thesis by (simp add: MarkupIterator_next_def)
  next
    case c2: (Cons c2 r2)
    show ?thesis
    proof (cases "c2 = c")
      case True
      with assms Cons c2 l show ?thesis by (simp add: MarkupIterator_next_def)
    next
      case False
      with assms Cons c2 obtain f where "parse_field r = Inr (f, rest)"
        by (auto simp: MarkupIterator_next_def split: if_splits sum.splits)
      from parse_field_shorter[OF this] l show ?thesis by simp
    qed
  qed
qed

termination build_string
  by (relation "measure (\<lambda>(G, kwargs, s). length s)")
     (auto dest: MarkupIterator_next_shorter)

declare build_string.simps [simp del]

text \<open>
  The placeholders of a template, for stating what a template refers to: the first part
  of the name of every replacement field the markup iterator finds, in order, up to the
  end of the template or its first syntax error.
\<close>

function template_placeholders :: "string \<Rightarrow> string list" where
  "template_placeholders s =
     (if s = [] then []
      else (case MarkupIterator_next s of
              Inl e \<Rightarrow> []
            | Inr (literal, field, rest) \<Rightarrow>
                (case field of
                   None \<Rightarrow> []
                 | Some (Replacement_field field_name conversion format_spec) \<Rightarrow>
                     [takeWhile (\<lambda>c. c \<noteq> CHR ''.'' \<and> c \<noteq> CHR ''['') field_name])
                @ template_placeholders rest))"
  by pat_completeness auto
termination
  by (relation "measure length") (auto dest: MarkupIterator_next_shorter)

declare template_placeholders.simps [simp del]

section \<open>Job launcher: \<open>_trigger_backup\<close> and \<open>run_backup_container\<close>\<close>

text \<open>
  The loop of \<open>_get_extra_volumes_for_backup_container\<close> over the fields of
  \<open>BACKUP_CONTAINER_VOLUMES.split(",")\<close>. An entry with two fields gets the mode \<open>rw\<close>;
  reading \<open>volume_parts[1]\<close> of an entry with one field raises \<open>IndexError\<close>; fields after
  the third are ignored. A later entry with the same source replaces the earlier one.
\<close>

fun extra_volumes_loop ::
  "string list \<Rightarrow> (string \<rightharpoonup> volume_binding) \<Rightarrow> error + (string \<rightharpoonup> volume_binding)" where
  "extra_volumes_loop [] extra_volumes = Inr extra_volumes"
| "extra_volumes_loop (volume_str # rest) extra_volumes =
     (if volume_str = [] then extra_volumes_loop rest extra_volumes
      else (case (let volume_parts = split_on CHR '':'' volume_str
                  in if length volume_parts = 2 then volume_parts @ [''rw''] else volume_parts) of
              p0 # p1 # p2 # _ \<Rightarrow>
                extra_volumes_loop rest (extra_volumes(p0 \<mapsto> \<lparr> vb_bind = p1, vb_mode = p2 \<rparr>))
            | _ \<Rightarrow> Inl (Builtin IndexError)))"

definition get_extra_volumes_for_backup_container ::
  "globals \<Rightarrow> error + (string \<rightharpoonup> volume_binding)" where
  "get_extra_volumes_for_backup_container G =
     extra_volumes_loop (split_on CHR '','' (BACKUP_CONTAINER_VOLUMES G)) Map.empty"

text \<open>
  The dictionary \<open>{volume["name"]: {"bind": ..., "mode": "ro"}, **extra_volumes}\<close>: the
  entries of \<open>extra_volumes\<close> come last, so one of them replaces the entry of the volume
  when its source is the volume's name.
\<close>

definition backup_volumes ::
  "volume_info \<Rightarrow> (string \<rightharpoonup> volume_binding) \<Rightarrow> (string option \<rightharpoonup> volume_binding)" where
  "backup_volumes volume extra_volumes =
     [vi_name volume \<mapsto> \<lparr> vb_bind = vi_destination volume, vb_mode = ''ro'' \<rparr>]
       ++ (\<lambda>key. case key of None \<Rightarrow> None | Some source \<Rightarrow> extra_volumes source)"

text \<open>
  The loop that waits for the new container to leave the status \<open>created\<close>. The
  deadline is tested after the status, before the sleep of one unit.
\<close>

function wait_until_started ::
  "string \<Rightarrow> string \<Rightarrow> nat \<Rightarrow> world \<Rightarrow> (error + string option) \<times> world" where
  "wait_until_started name backup_container_id start_time w =
     (case containers_get (Some backup_container_id) w of
        (Inl e, w1) \<Rightarrow> (Inl e, w1)
      | (Inr c, w1) \<Rightarrow>
          if dc_status c = ''created'' then
            (if clock w1 - start_time > 30
             then (Inl (ContainerNotStartedException name),
                   emit (Waited_for_30_seconds name backup_container_id) w1)
             else wait_until_started name backup_container_id start_time (sleep 1 w1))
          else (Inr (Some backup_container_id), w1))"
  by pat_completeness auto
termination
  by (relation "measure (\<lambda>(name, backup_container_id, start_time, w). start_time + 31 - clock w)")
     (auto simp: containers_get_def sleep_def split: if_splits option.splits)

declare wait_until_started.simps [simp del]

text \<open>
  \<open>run_backup_container\<close>. An \<open>APIError\<close> with status 409 from \<open>client.containers.run\<close>
  is logged and the function returns without a value (\<open>None\<close>); every other exception of
  the call is raised again.
\<close>

definition run_backup_container ::
  "string \<Rightarrow> string \<Rightarrow> string \<Rightarrow> (string \<rightharpoonup> string) \<Rightarrow> (string option \<rightharpoonup> volume_binding) \<Rightarrow>
   world \<Rightarrow> (error + string option) \<times> world" where
  "run_backup_container image_tag command name environment volumes w =
     (case containers_run
             \<lparr> rr_image = image_tag, rr_command = command, rr_name = name,
               rr_environment = environment, rr_volumes = volumes \<rparr>
             (emit (Running_backup_container name image_tag command) w) of
        (Inl exc, w1) \<Rightarrow>
          if exc = APIError 409
          then (Inr None, emit (Already_a_container_with_this_name name) w1)
          else (Inl exc, w1)
      | (Inr backup_container_id, w1) \<Rightarrow>
          (let w2 = emit (Created_backup_container backup_container_id) w1
           in wait_until_started name backup_container_id (clock w2) w2))"

text \<open>The keyword arguments of \<open>BACKUP_CONTAINER_COMMAND.format\<close>.\<close>

definition command_kwargs ::
  "container_info \<Rightarrow> volume_info \<Rightarrow> string \<Rightarrow> string \<Rightarrow> (string \<rightharpoonup> string option)" where
  "command_kwargs container volume server_name volume_hash =
     [''server_name'' \<mapsto> Some server_name,
      ''project_name'' \<mapsto> ci_project container,
      ''container_name'' \<mapsto> Some (ci_name container),
      ''volume_name'' \<mapsto>
         Some (case vi_name volume of
                 None \<Rightarrow> volume_hash
               | Some n \<Rightarrow> if n \<noteq> [] then n else volume_hash),
      ''volume_path'' \<mapsto> Some (vi_destination volume)]"

definition trigger_backup ::
  "globals \<Rightarrow> container_info \<Rightarrow> volume_info \<Rightarrow> string \<Rightarrow> world \<Rightarrow>
   (error + string option) \<times> world" where
  "trigger_backup G container volume server_name w =
     (case get_extra_volumes_for_backup_container G of
        Inl e \<Rightarrow> (Inl e, w)
      | Inr extra_volumes \<Rightarrow>
          (let volume_hash = md5_hexdigest G (vi_source volume) in
           case build_string G (command_kwargs container volume server_name volume_hash)
                  (BACKUP_CONTAINER_COMMAND G) of
             Inl e \<Rightarrow> (Inl (Builtin e), w)
           | Inr command \<Rightarrow>
               run_backup_container (BACKUP_CONTAINER_IMAGE G) command
                 (''garrison_'' @ ci_id container @ ''_'' @ volume_hash)
                 (os_environ G) (backup_volumes volume extra_volumes) w))"

section \<open>Completion tracker and orchestrator: \<open>main\<close>\<close>

definition get_container_exit_status :: "string option \<Rightarrow> world \<Rightarrow> (error + int) \<times> world" where
  "get_container_exit_status container_id w =
     (case containers_get container_id w of
        (Inl e, w1) \<Rightarrow> (Inl e, w1)
      | (Inr docker_container, w1) \<Rightarrow>
          if dc_status docker_container \<noteq> ''exited'' then (Inr (- 1), w1)
          else (Inr (dc_ExitCode docker_container), w1))"

definition remove_container :: "string option \<Rightarrow> world \<Rightarrow> (error + unit) \<times> world" where
  "remove_container container_id w =
     (case containers_get container_id (emit (Removing_container container_id) w) of
        (Inl e, w1) \<Rightarrow>
          if e = NotFound then (Inr (), emit (Container_does_not_exist container_id) w1)
          else (Inl e, w1)
      | (Inr c, w1) \<Rightarrow>
          (case container_remove (dc_id c) w1 of
             (Inl e, w2) \<Rightarrow>
               if e = NotFound then (Inr (), emit (Container_does_not_exist container_id) w2)
               else (Inl e, w2)
           | (Inr u, w2) \<Rightarrow> (Inr (), emit (Successfully_removed container_id) w2)))"

text \<open>
  The loop over the volumes of one container. \<open>contextlib.suppress\<close> swallows
  \<open>ContainerNotStartedException\<close> only, and then nothing is appended; whatever
  \<open>_trigger_backup\<close> returns is appended, the missing value \<open>None\<close> of the status 409
  path included; every other exception leaves the loop.
\<close>

fun launch_volumes ::
  "globals \<Rightarrow> container_info \<Rightarrow> string \<Rightarrow> volume_info list \<Rightarrow> string option list \<Rightarrow> world \<Rightarrow>
   (error + string option list) \<times> world" where
  "launch_volumes G container server_name [] backup_container_ids w =
     (Inr backup_container_ids, w)"
| "launch_volumes G container server_name (volume # rest) backup_container_ids w =
     (case trigger_backup G container volume server_name
             (emit (Running_backup server_name (ci_name container) (ci_id container)
                      (ci_project container)
                      (case vi_name volume of
                         None \<Rightarrow> vi_source volume
                       | Some n \<Rightarrow> if n \<noteq> [] then n else vi_source volume)) w) of
        (Inl e, w1) \<Rightarrow>
          (case e of
             ContainerNotStartedException n \<Rightarrow>
               launch_volumes G container server_name rest backup_container_ids w1
           | _ \<Rightarrow> (Inl e, w1))
      | (Inr r, w1) \<Rightarrow>
          launch_volumes G container server_name rest (backup_container_ids @ [r]) w1)"

fun launch_containers ::
  "globals \<Rightarrow> string \<Rightarrow> container_info list \<Rightarrow> string option list \<Rightarrow> world \<Rightarrow>
   (error + string option list) \<times> world" where
  "launch_containers G server_name [] backup_container_ids w = (Inr backup_container_ids, w)"
| "launch_containers G server_name (container # rest) backup_container_ids w =
     (case get_included_container_volumes G container
             (get_default (ci_labels container) (INCLUDE_BIND_MOUNTS_LABEL G) ''false'' = ''true'')
             (emit (Found_container (ci_name container) (ci_project container)) w) of
        (Inl e, w1) \<Rightarrow> (Inl e, w1)
      | (Inr volumes, w1) \<Rightarrow>
          (case launch_volumes G container server_name volumes backup_container_ids w1 of
             (Inl e, w2) \<Rightarrow> (Inl e, w2)
           | (Inr ids, w2) \<Rightarrow> launch_containers G server_name rest ids w2))"

text \<open>
  \<open>all(get_container_exit_status(container_id) != -1 for container_id in ...)\<close>: the
  generator stops at the first container that has not exited.
\<close>

fun all_exited :: "string option list \<Rightarrow> world \<Rightarrow> (error + bool) \<times> world" where
  "all_exited [] w = (Inr True, w)"
| "all_exited (container_id # rest) w =
     (case get_container_exit_status container_id w of
        (Inl e, w1) \<Rightarrow> (Inl e, w1)
      | (Inr status, w1) \<Rightarrow> if status \<noteq> - 1 then all_exited rest w1 else (Inr False, w1))"

text \<open>
  The loop that waits for the backups. The body tests the deadline of 120 units and does
  nothing when it has passed (\<open>pass\<close>), then sleeps 5 units. The loop may run forever:
  the value \<open>None\<close> stands for a run that never leaves it.
\<close>

partial_function (option) wait_for_backups ::
  "string option list \<Rightarrow> nat \<Rightarrow> world \<Rightarrow> ((error + unit) \<times> world) option" where
  "wait_for_backups backup_container_ids start_time w =
     (case all_exited backup_container_ids w of
        (Inl e, w1) \<Rightarrow> Some (Inl e, w1)
      | (Inr done, w1) \<Rightarrow>
          if done then Some (Inr (), w1)
          else wait_for_backups backup_container_ids start_time
                 (sleep 5 (if clock w1 - start_time > 120 then w1 else w1)))"

fun cleanup_loop :: "string option list \<Rightarrow> world \<Rightarrow> (error + unit) \<times> world" where
  "cleanup_loop [] w = (Inr (), w)"
| "cleanup_loop (container_id # rest) w =
     (case get_container_exit_status container_id w of
        (Inl e, w1) \<Rightarrow> (Inl e, w1)
      | (Inr status, w1) \<Rightarrow>
          if status \<noteq> 0
          then cleanup_loop rest (emit (Did_not_exit_with_success container_id) w1)
          else (case remove_container container_id w1 of
                  (Inl e, w2) \<Rightarrow> (Inl e, w2)
                | (Inr u, w2) \<Rightarrow> cleanup_loop rest w2))"

definition main :: "globals \<Rightarrow> world \<Rightarrow> ((error + unit) \<times> world) option" where
  "main G w =
     (case get_server_name w of
        (server_name, w1) \<Rightarrow>
          (case get_enabled_containers G (REQUIRE_ENABLE G)
                  (emit (Running_on_server server_name) w1) of
             (Inl e, w2) \<Rightarrow> Some (Inl e, w2)
           | (Inr containers, w2) \<Rightarrow>
               if containers = [] then Some (Inr (), emit Did_not_find_any_containers w2)
               else (case launch_containers G server_name containers [] w2 of
                       (Inl e, w3) \<Rightarrow> Some (Inl e, w3)
                     | (Inr backup_container_ids, w3) \<Rightarrow>
                         (case wait_for_backups backup_container_ids (clock w3) w3 of
                            None \<Rightarrow> None
                          | Some (Inl e, w4) \<Rightarrow> Some (Inl e, w4)
                          | Some (Inr u, w4) \<Rightarrow> Some (cleanup_loop backup_container_ids w4)))))"

section \<open>Example inputs\<close>

text \<open>
  A small installation used to evaluate the definitions: the scenario of the
  specification (container \<open>web\<close> of project \<open>shop\<close> with a named volume and a bind
  mount), a job container left over from an earlier run, and the container the program
  itself runs in. The eligibility label is the one the scenario uses; the other label
  names are examples. The digest function is a
  stand-in, since no statement below depends on the digest of a particular string, and so
  is \<open>format_object\<close>, which the plain fields of the example templates never reach.
\<close>

definition example_globals :: globals where
  "example_globals =
     \<lparr> COMPOSE_PROJECT_LABEL = ''com.docker.compose.project'',
       ENABLE_LABEL = ''garrison.enable'',
       VOLUME_EXCLUDE_LABEL = ''garrison.volumes.exclude'',
       VOLUME_INCLUDE_LABEL = ''garrison.volumes.include'',
       INCLUDE_BIND_MOUNTS_LABEL = ''garrison.bind-mounts'',
       BACKUP_CONTAINER_IMAGE = ''backup:latest'',
       BACKUP_CONTAINER_COMMAND = ''backup {volume_name} {volume_path}'',
       BACKUP_CONTAINER_VOLUMES = [],
       REQUIRE_ENABLE = True,
       os_environ = Map.empty,
       md5_hexdigest = (\<lambda>s. ''d41d8cd9''),
       format_object = (\<lambda>kwargs obj rest conversion format_spec. Inl ValueError) \<rparr>"

definition example_data_mount :: mount where
  "example_data_mount =
     \<lparr> mnt_Type = ''volume'', mnt_Name = Some ''shop_data'',
       mnt_Source = ''/var/lib/docker/volumes/shop_data/_data'', mnt_Destination = ''/data'' \<rparr>"

definition example_conf_mount :: mount where
  "example_conf_mount =
     \<lparr> mnt_Type = ''bind'', mnt_Name = None,
       mnt_Source = ''/etc/conf'', mnt_Destination = ''/conf'' \<rparr>"

definition example_data_volume :: volume_info where
  "example_data_volume =
     \<lparr> vi_type = ''volume'', vi_name = Some ''shop_data'',
       vi_source = ''/var/lib/docker/volumes/shop_data/_data'', vi_destination = ''/data'' \<rparr>"

definition example_conf_volume :: volume_info where
  "example_conf_volume =
     \<lparr> vi_type = ''bind'', vi_name = None,
       vi_source = ''/etc/conf'', vi_destination = ''/conf'' \<rparr>"

definition example_web :: docker_container where
  "example_web =
     \<lparr> dc_id = ''c1'', dc_name = ''web'',
       dc_labels = [''com.docker.compose.project'' \<mapsto> ''shop'', ''garrison.enable'' \<mapsto> ''true''],
       dc_image_tags = [''nginx:latest''],
       dc_Env = [''PATH=/usr/bin''],
       dc_Mounts = [example_data_mount, example_conf_mount],
       dc_status = ''running'', dc_ExitCode = 0 \<rparr>"

definition example_left_over :: docker_container where
  "example_left_over =
     \<lparr> dc_id = ''c2'', dc_name = ''garrison_c1_d41d8cd9'',
       dc_labels = [''garrison.enable'' \<mapsto> ''true''],
       dc_image_tags = [''backup:latest''],
       dc_Env = [],
       dc_Mounts = [],
       dc_status = ''exited'', dc_ExitCode = 1 \<rparr>"

definition example_self :: docker_container where
  "example_self =
     \<lparr> dc_id = ''g0'', dc_name = ''garrison'',
       dc_labels = [''garrison.enable'' \<mapsto> ''true''],
       dc_image_tags = [''garrison:latest''],
       dc_Env = [],
       dc_Mounts = [],
       dc_status = ''running'', dc_ExitCode = 0 \<rparr>"

text \<open>
  The daemon of the example gives a new container the id \<open>job_\<close> followed by its name;
  \<open>example_job\<close> is such a container in a given state.
\<close>

definition example_job :: "string \<Rightarrow> string \<Rightarrow> int \<Rightarrow> docker_container" where
  "example_job k status exit_code =
     \<lparr> dc_id = k, dc_name = drop 4 k,
       dc_labels = Map.empty,
       dc_image_tags = [''backup:latest''],
       dc_Env = [],
       dc_Mounts = [],
       dc_status = status, dc_ExitCode = exit_code \<rparr>"

definition example_inspect :: "nat \<Rightarrow> string \<Rightarrow> error + docker_container" where
  "example_inspect n k =
     (if k = ''g0'' then Inr example_self
      else if k = ''c1'' then Inr example_web
      else if k = ''c2'' then Inr example_left_over
      else if startswith k ''job_'' then Inr (example_job k ''exited'' 0)
      else Inl NotFound)"

definition example_world :: world where
  "example_world =
     \<lparr> hostname = ''g0'', info_Name = ''host1'',
       listing = [example_self, example_web, example_left_over],
       inspect = example_inspect,
       submit = (\<lambda>n r. Inr (''job_'' @ rr_name r)),
       remove_failure = (\<lambda>n k. None),
       clock = 0, calls = 0, requests = [], removed = [], log = [] \<rparr>"

definition example_web_info :: container_info where
  "example_web_info =
     \<lparr> ci_id = ''c1'', ci_name = ''web'',
       ci_labels = [''com.docker.compose.project'' \<mapsto> ''shop'', ''garrison.enable'' \<mapsto> ''true''],
       ci_project = Some ''shop'', ci_image = ''nginx:latest'',
       ci_environment = [''PATH'' \<mapsto> ''/usr/bin''] \<rparr>"

definition example_self_info :: container_info where
  "example_self_info =
     \<lparr> ci_id = ''g0'', ci_name = ''garrison'',
       ci_labels = [''garrison.enable'' \<mapsto> ''true''],
       ci_project = None, ci_image = ''garrison:latest'',
       ci_environment = Map.empty \<rparr>"


definition example_hanging_world :: world where
  "example_hanging_world =
     example_world\<lparr>inspect :=
       (\<lambda>n k. if startswith k ''job_'' then Inr (example_job k ''running'' 0)
              else example_inspect n k)\<rparr>"

definition example_name_conflict_world :: world where
  "example_name_conflict_world = example_world\<lparr>submit := (\<lambda>n r. Inl (APIError 409))\<rparr>"

definition example_finished_world :: world where
  "example_finished_world =
     example_world\<lparr>inspect :=
       (\<lambda>n k. if k = ''job_a'' then Inr (example_job k ''exited'' 0)
              else if k = ''job_b'' then Inr (example_job k ''exited'' 137)
              else example_inspect n k)\<rparr>"

lemmas example_defs =
  example_globals_def example_web_def example_left_over_def example_self_def
  example_inspect_def example_world_def example_web_info_def
  example_data_mount_def example_conf_mount_def example_data_volume_def example_conf_volume_def
  example_job_def

lemmas eval_defs =
  trigger_backup_def run_backup_container_def containers_run_def emit_def sleep_def
  containers_get_def get_extra_volumes_for_backup_container_def backup_volumes_def
  command_kwargs_def MarkupIterator_next_def parse_field_def is_brace_def render_field_def
  get_field_object_def cons_char_def is_digit_def py_str_def startswith_def Let_def
  build_string.simps wait_until_started.simps

lemmas main_defs =
  main_def get_server_name_def get_enabled_containers_def containers_list_def
  container_info_of_def get_default_def get_included_container_volumes_def split_label_def
  volume_name_of_def volume_info_of_def removeprefix_def get_container_exit_status_def
  remove_container_def container_remove_def

section \<open>Properties of the eligibility filter\<close>

lemma enabled_loop_set:
  "fst (enabled_loop G self req cs acc w) = Inr out \<Longrightarrow>
   set out = set acc \<union>
     {info. \<exists>c \<in> set cs.
        \<not> (case self of None \<Rightarrow> False | Some s \<Rightarrow> dc_id c = dc_id s) \<and>
        container_info_of G c = Inr info \<and>
        \<not> startswith (ci_name info) ''garrison_'' \<and>
        get_default (ci_labels info) (ENABLE_LABEL G) ''true'' \<noteq> ''false'' \<and>
        \<not> (req \<and> get_default (ci_labels info) (ENABLE_LABEL G) ''false'' \<noteq> ''true'')}"
proof (induction cs arbitrary: acc w)
  case Nil
  then show ?case by simp
next
  case (Cons c cs)
  show ?case
  proof (cases "case self of None \<Rightarrow> False | Some s \<Rightarrow> dc_id c = dc_id s")
    case True
    with Cons.prems have "fst (enabled_loop G self req cs acc w) = Inr out" by simp
    from Cons.IH[OF this] True show ?thesis by auto
  next
    case False
    show ?thesis
    proof (cases "container_info_of G c")
      case (Inl e)
      with Cons.prems False show ?thesis by simp
    next
      case (Inr info)
      with Cons.prems False Cons.IH show ?thesis
        by (auto split: if_splits)
    qed
  qed
qed

text \<open>
  What \<open>get_enabled_containers\<close> returns, when it returns: the infos of the listed
  containers that are not the program's own container and pass the three tests.
\<close>

lemma get_enabled_containers_set:
  assumes "fst (get_enabled_containers G req w) = Inr out"
  shows "set out =
     {info. \<exists>c \<in> set (listing w).
        \<not> (case fst (containers_get (Some (hostname w)) w) of
              Inl e \<Rightarrow> False | Inr s \<Rightarrow> dc_id c = dc_id s) \<and>
        container_info_of G c = Inr info \<and>
        \<not> startswith (ci_name info) ''garrison_'' \<and>
        get_default (ci_labels info) (ENABLE_LABEL G) ''true'' \<noteq> ''false'' \<and>
        \<not> (req \<and> get_default (ci_labels info) (ENABLE_LABEL G) ''false'' \<noteq> ''true'')}"
proof (cases "containers_get (Some (hostname w)) w")
  case (Pair r w1)
  show ?thesis
  proof (cases r)
    case (Inl e)
    with Pair assms have e: "e = NotFound"
      by (simp add: get_enabled_containers_def split: if_splits)
    with Pair Inl assms
    have "fst (enabled_loop G None req (listing w1) [] (w1\<lparr>calls := calls w1 + 1\<rparr>)) = Inr out"
      by (simp add: get_enabled_containers_def containers_list_def)
    moreover have "listing w1 = listing w"
      using Pair by (auto simp: containers_get_def split: if_splits)
    ultimately show ?thesis
      using enabled_loop_set[of G None req "listing w" "[]" _ out] Pair Inl by simp
  next
    case (Inr s)
    with Pair assms
    have "fst (enabled_loop G (Some s) req (listing w1) [] (w1\<lparr>calls := calls w1 + 1\<rparr>)) = Inr out"
      by (simp add: get_enabled_containers_def containers_list_def)
    moreover have "listing w1 = listing w"
      using Pair by (auto simp: containers_get_def split: if_splits)
    ultimately show ?thesis
      using enabled_loop_set[of G "Some s" req "listing w" "[]" _ out] Pair Inr by simp
  qed
qed

lemma container_info_of_fields:
  "container_info_of G c = Inr info \<Longrightarrow>
   ci_name info = dc_name c \<and> ci_labels info = dc_labels c \<and> ci_id info = dc_id c"
  by (auto simp: container_info_of_def split: list.splits sum.splits)

text \<open>
  Claim C9. Whenever \<open>get_enabled_containers\<close> returns a list, no returned candidate
  has a name that starts with the prefix \<open>garrison_\<close> reserved for backup jobs, and the
  info of a listed container with such a name is not in the list, whatever its labels
  and whatever the flag \<open>require_enabled\<close>.
\<close>

theorem reserved_prefix_excluded:
  assumes "fst (get_enabled_containers G require_enabled w) = Inr cs"
  shows "(\<forall>info \<in> set cs. \<not> startswith (ci_name info) ''garrison_'') \<and>
         (\<forall>c \<in> set (listing w). \<forall>info.
            startswith (dc_name c) ''garrison_'' \<and> container_info_of G c = Inr info
            \<longrightarrow> info \<notin> set cs)"
proof -
  have a: "\<forall>info \<in> set cs. \<not> startswith (ci_name info) ''garrison_''"
    unfolding get_enabled_containers_set[OF assms] by blast
  have "\<forall>c \<in> set (listing w). \<forall>info.
            startswith (dc_name c) ''garrison_'' \<and> container_info_of G c = Inr info
            \<longrightarrow> info \<notin> set cs"
    using a container_info_of_fields by metis
  with a show ?thesis by blast
qed

theorem reserved_prefix_excluded_witness:
  "fst (get_enabled_containers example_globals True example_world) = Inr [example_web_info] \<and>
   example_left_over \<in> set (listing example_world) \<and>
   startswith (dc_name example_left_over) ''garrison_'' \<and>
   dc_labels example_left_over (ENABLE_LABEL example_globals) = Some ''true'' \<and>
   \<not> startswith (ci_name example_web_info) ''garrison_''"
proof -
  have r: "fst (get_enabled_containers example_globals True example_world) = Inr [example_web_info]"
    by (simp add: example_defs get_enabled_containers_def containers_get_def containers_list_def
        container_info_of_def startswith_def get_default_def emit_def)
  from reserved_prefix_excluded[OF r] r show ?thesis
    by (simp add: example_defs startswith_def)
qed

text \<open>
  Claim C8, as stated, fails for the container the program itself runs in: its
  eligibility label is \<open>true\<close> and its name does not start with \<open>garrison_\<close>, yet the
  test \<open>container.id == self_container.id\<close> skips it before any label is read.
\<close>

theorem enabled_label_own_container_counterexample:
  "example_self \<in> set (listing example_world) \<and>
   dc_labels example_self (ENABLE_LABEL example_globals) = Some ''true'' \<and>
   \<not> startswith (dc_name example_self) ''garrison_'' \<and>
   container_info_of example_globals example_self = Inr example_self_info \<and>
   fst (get_enabled_containers example_globals True example_world) = Inr [example_web_info] \<and>
   example_self_info \<notin> set [example_web_info]"
  by (simp add: example_defs example_self_info_def get_enabled_containers_def containers_get_def
      containers_list_def container_info_of_def startswith_def get_default_def emit_def)

text \<open>
  Claim C8, amended. Let \<open>get_enabled_containers\<close> return the list \<open>cs\<close>, and let
  \<open>info\<close> be the info of a listed container. If \<open>require_enabled\<close> is set and the
  container has no eligibility label, \<open>info\<close> is not in \<open>cs\<close>. If the label is
  \<open>true\<close>, the name does not start with \<open>garrison_\<close> and the container is not the
  program's own container, \<open>info\<close> is in \<open>cs\<close>. If the label is \<open>false\<close>, \<open>info\<close> is
  not in \<open>cs\<close>, whatever \<open>require_enabled\<close> is.
\<close>

theorem eligibility_label_rules:
  assumes "fst (get_enabled_containers G require_enabled w) = Inr cs"
    and "c \<in> set (listing w)"
    and "container_info_of G c = Inr info"
  shows "(require_enabled \<and> dc_labels c (ENABLE_LABEL G) = None \<longrightarrow> info \<notin> set cs) \<and>
         (dc_labels c (ENABLE_LABEL G) = Some ''true'' \<and>
          \<not> startswith (dc_name c) ''garrison_'' \<and>
          \<not> (case fst (containers_get (Some (hostname w)) w) of
                Inl e \<Rightarrow> False | Inr s \<Rightarrow> dc_id c = dc_id s)
          \<longrightarrow> info \<in> set cs) \<and>
         (dc_labels c (ENABLE_LABEL G) = Some ''false'' \<longrightarrow> info \<notin> set cs)"
proof -
  note f = container_info_of_fields[OF assms(3)]
  have absent: "info \<notin> set cs"
    if "require_enabled" "dc_labels c (ENABLE_LABEL G) = None"
    using that f unfolding get_enabled_containers_set[OF assms(1)]
    by (simp add: get_default_def)
  have disabled: "info \<notin> set cs" if "dc_labels c (ENABLE_LABEL G) = Some ''false''"
    using that f unfolding get_enabled_containers_set[OF assms(1)]
    by (simp add: get_default_def)
  have enabled: "info \<in> set cs"
    if "dc_labels c (ENABLE_LABEL G) = Some ''true''"
      "\<not> startswith (dc_name c) ''garrison_''"
      "\<not> (case fst (containers_get (Some (hostname w)) w) of
            Inl e \<Rightarrow> False | Inr s \<Rightarrow> dc_id c = dc_id s)"
  proof -
    have "get_default (ci_labels info) (ENABLE_LABEL G) ''true'' \<noteq> ''false''"
      and "get_default (ci_labels info) (ENABLE_LABEL G) ''false'' = ''true''"
      using that(1) f by (simp_all add: get_default_def)
    with that(2,3) f assms(2,3) show ?thesis
      unfolding get_enabled_containers_set[OF assms(1)] by auto
  qed
  from absent disabled enabled show ?thesis by blast
qed

theorem eligibility_label_rules_witness:
  "fst (get_enabled_containers example_globals True example_world) = Inr [example_web_info] \<and>
   example_web \<in> set (listing example_world) \<and>
   container_info_of example_globals example_web = Inr example_web_info \<and>
   dc_labels example_web (ENABLE_LABEL example_globals) = Some ''true'' \<and>
   \<not> startswith (dc_name example_web) ''garrison_'' \<and>
   fst (containers_get (Some (hostname example_world)) example_world) = Inr example_self \<and>
   dc_id example_web \<noteq> dc_id example_self \<and>
   example_web_info \<in> set [example_web_info]"
proof -
  have r: "fst (get_enabled_containers example_globals True example_world) = Inr [example_web_info]"
    by (simp add: example_defs get_enabled_containers_def containers_get_def containers_list_def
        container_info_of_def startswith_def get_default_def emit_def)
  have l: "example_web \<in> set (listing example_world)"
    by (simp add: example_world_def)
  have i: "container_info_of example_globals example_web = Inr example_web_info"
    by (simp add: example_defs container_info_of_def)
  from eligibility_label_rules[OF r l i] r l i show ?thesis
    by (simp add: example_defs containers_get_def startswith_def)
qed

section \<open>Properties of the volume selector\<close>

lemma volumes_loop_list:
  "fst (volumes_loop container ibm incl excl ms acc w) = acc @
     map volume_info_of (filter (\<lambda>m. (ibm \<or> mnt_Type m \<noteq> ''bind'') \<and>
        \<not> not_in_included incl (volume_name_of container m) \<and>
        \<not> in_excluded excl (volume_name_of container m)) ms)"
  by (induction ms arbitrary: acc w) (auto simp: Let_def)

lemma volume_info_of_inj: "volume_info_of m = volume_info_of m' \<Longrightarrow> m = m'"
  by (cases m; cases m') (simp add: volume_info_of_def)

lemma get_included_container_volumes_list:
  assumes "fst (get_included_container_volumes G container ibm w) = Inr volumes"
    and "fst (containers_get (Some (ci_id container)) w) = Inr dc"
  shows "volumes =
     map volume_info_of (filter (\<lambda>m. (ibm \<or> mnt_Type m \<noteq> ''bind'') \<and>
        \<not> not_in_included (split_label (ci_labels container (VOLUME_INCLUDE_LABEL G)))
            (volume_name_of container m) \<and>
        \<not> in_excluded (split_label (ci_labels container (VOLUME_EXCLUDE_LABEL G)))
            (volume_name_of container m)) (dc_Mounts dc))"
proof (cases "containers_get (Some (ci_id container)) w")
  case (Pair r w1)
  with assms(2) have r: "r = Inr dc" by simp
  obtain vs w2 where l: "volumes_loop container ibm
      (split_label (ci_labels container (VOLUME_INCLUDE_LABEL G)))
      (split_label (ci_labels container (VOLUME_EXCLUDE_LABEL G))) (dc_Mounts dc) [] w1 = (vs, w2)"
    by (cases "volumes_loop container ibm
      (split_label (ci_labels container (VOLUME_INCLUDE_LABEL G)))
      (split_label (ci_labels container (VOLUME_EXCLUDE_LABEL G))) (dc_Mounts dc) [] w1") 
  with Pair r assms(1) have "volumes = vs"
    by (simp add: get_included_container_volumes_def)
  moreover from l have "vs = fst (volumes_loop container ibm
      (split_label (ci_labels container (VOLUME_INCLUDE_LABEL G)))
      (split_label (ci_labels container (VOLUME_EXCLUDE_LABEL G))) (dc_Mounts dc) [] w1)" by simp
  ultimately show ?thesis by (simp add: volumes_loop_list)
qed

text \<open>
  Claim C4, as stated, fails: the bind mount \<open>/etc/conf\<close> of the example has no name,
  and with bind mounts included it is selected when the container has no include label
  and skipped when the include label is \<open>data\<close>.
\<close>

theorem nameless_mount_include_label_counterexample:
  "mnt_Name example_conf_mount = None \<and>
   fst (containers_get (Some (ci_id example_web_info)) example_world) = Inr example_web \<and>
   example_conf_mount \<in> set (dc_Mounts example_web) \<and>
   fst (get_included_container_volumes example_globals example_web_info True example_world)
     = Inr [example_data_volume, example_conf_volume] \<and>
   fst (get_included_container_volumes example_globals
          (example_web_info\<lparr>ci_labels :=
             (ci_labels example_web_info)(VOLUME_INCLUDE_LABEL example_globals \<mapsto> ''data'')\<rparr>)
          True example_world)
     = Inr [example_data_volume]"
  by (simp add: example_defs get_included_container_volumes_def containers_get_def
      split_label_def volume_name_of_def volume_info_of_def removeprefix_def startswith_def Let_def
      emit_def)

text \<open>
  Claim C4, amended. A mount without a name is matched against the include and exclude
  lists by its source path, with the prefix \<open>project_\<close> removed when the container has a
  project. It is selected exactly when bind mounts are included or its type is not
  \<open>bind\<close>, the include label is missing or lists that path, and the exclude label is
  missing or does not list it. When both labels are missing, the flag and the type alone
  decide.
\<close>

theorem nameless_mount_selection:
  assumes "fst (get_included_container_volumes G container include_bind_mount w) = Inr volumes"
    and "fst (containers_get (Some (ci_id container)) w) = Inr dc"
    and "volume \<in> set (dc_Mounts dc)"
    and "mnt_Name volume = None"
  shows "(volume_info_of volume \<in> set volumes \<longleftrightarrow>
            (include_bind_mount \<or> mnt_Type volume \<noteq> ''bind'') \<and>
            \<not> not_in_included (split_label (ci_labels container (VOLUME_INCLUDE_LABEL G)))
                (case ci_project container of
                   None \<Rightarrow> mnt_Source volume
                 | Some project \<Rightarrow>
                     if project \<noteq> [] then removeprefix (mnt_Source volume) (project @ ''_'')
                     else mnt_Source volume) \<and>
            \<not> in_excluded (split_label (ci_labels container (VOLUME_EXCLUDE_LABEL G)))
                (case ci_project container of
                   None \<Rightarrow> mnt_Source volume
                 | Some project \<Rightarrow>
                     if project \<noteq> [] then removeprefix (mnt_Source volume) (project @ ''_'')
                     else mnt_Source volume)) \<and>
         (ci_labels container (VOLUME_INCLUDE_LABEL G) = None \<and>
          ci_labels container (VOLUME_EXCLUDE_LABEL G) = None \<longrightarrow>
            (volume_info_of volume \<in> set volumes \<longleftrightarrow>
               include_bind_mount \<or> mnt_Type volume \<noteq> ''bind''))"
proof -
  have n: "volume_name_of container volume =
      (case ci_project container of
         None \<Rightarrow> mnt_Source volume
       | Some project \<Rightarrow>
           if project \<noteq> [] then removeprefix (mnt_Source volume) (project @ ''_'')
           else mnt_Source volume)"
    using assms(4) by (simp add: volume_name_of_def Let_def)
  have m: "volume_info_of volume \<in> set volumes \<longleftrightarrow>
      (include_bind_mount \<or> mnt_Type volume \<noteq> ''bind'') \<and>
      \<not> not_in_included (split_label (ci_labels container (VOLUME_INCLUDE_LABEL G)))
          (volume_name_of container volume) \<and>
      \<not> in_excluded (split_label (ci_labels container (VOLUME_EXCLUDE_LABEL G)))
          (volume_name_of container volume)"
    unfolding get_included_container_volumes_list[OF assms(1,2)]
    using assms(3) by (auto dest: volume_info_of_inj)
  show ?thesis
    using m unfolding n by (auto simp: split_label_def)
qed


theorem nameless_mount_selection_witness:
  "fst (get_included_container_volumes example_globals example_web_info True example_world)
     = Inr [example_data_volume, example_conf_volume] \<and>
   fst (containers_get (Some (ci_id example_web_info)) example_world) = Inr example_web \<and>
   example_conf_mount \<in> set (dc_Mounts example_web) \<and>
   mnt_Name example_conf_mount = None \<and>
   ci_labels example_web_info (VOLUME_INCLUDE_LABEL example_globals) = None \<and>
   ci_labels example_web_info (VOLUME_EXCLUDE_LABEL example_globals) = None \<and>
   volume_info_of example_conf_mount \<in> set [example_data_volume, example_conf_volume]"
proof -
  have r: "fst (get_included_container_volumes example_globals example_web_info True example_world)
     = Inr [example_data_volume, example_conf_volume]"
    by (simp add: example_defs get_included_container_volumes_def containers_get_def
        split_label_def volume_name_of_def volume_info_of_def removeprefix_def startswith_def Let_def
        emit_def)
  have g: "fst (containers_get (Some (ci_id example_web_info)) example_world) = Inr example_web"
    by (simp add: example_defs containers_get_def)
  have m: "example_conf_mount \<in> set (dc_Mounts example_web)"
    by (simp add: example_web_def)
  have n: "mnt_Name example_conf_mount = None"
    by (simp add: example_conf_mount_def)
  have i: "ci_labels example_web_info (VOLUME_INCLUDE_LABEL example_globals) = None"
    by (simp add: example_defs)
  have e: "ci_labels example_web_info (VOLUME_EXCLUDE_LABEL example_globals) = None"
    by (simp add: example_defs)
  from nameless_mount_selection[OF r g m n] i e
  have "volume_info_of example_conf_mount \<in> set [example_data_volume, example_conf_volume]"
    by blast
  with r g m n i e show ?thesis by blast
qed

section \<open>Properties of the job launcher\<close>

lemma split_on_no_sep: "sep \<notin> set s \<Longrightarrow> split_on sep s = [s]"
  by (induction s) auto

lemma extra_volumes_loop_single_field:
  "e \<in> set entries \<Longrightarrow> e \<noteq> [] \<Longrightarrow> CHR '':'' \<notin> set e \<Longrightarrow>
   extra_volumes_loop entries acc = Inl (Builtin IndexError)"
proof (induction entries arbitrary: acc)
  case Nil
  then show ?case by simp
next
  case (Cons a entries)
  show ?case
  proof (cases "a = e")
    case True
    with Cons.prems show ?thesis by (simp add: split_on_no_sep)
  next
    case False
    with Cons.prems have "e \<in> set entries" by simp
    from Cons.IH[OF this Cons.prems(2,3)] 
    have r: "\<And>acc. extra_volumes_loop entries acc = Inl (Builtin IndexError)" .
    show ?thesis
      by (auto simp: r Let_def split: list.splits)
  qed
qed

text \<open>
  Claim C10. If one of the comma-separated entries of \<open>BACKUP_CONTAINER_VOLUMES\<close> is not
  empty and has no \<open>:\<close>, then \<open>_get_extra_volumes_for_backup_container\<close> raises
  \<open>IndexError\<close> and returns no mapping; \<open>_trigger_backup\<close> raises it for every container
  and volume, before anything is sent to the daemon or logged; and the loop over the
  volumes in \<open>main\<close> does not catch it.
\<close>

theorem single_field_extra_volume_raises:
  assumes "entry \<in> set (split_on CHR '','' (BACKUP_CONTAINER_VOLUMES G))"
    and "entry \<noteq> []"
    and "CHR '':'' \<notin> set entry"
  shows "get_extra_volumes_for_backup_container G = Inl (Builtin IndexError) \<and>
         trigger_backup G container volume server_name w = (Inl (Builtin IndexError), w) \<and>
         fst (launch_volumes G container server_name (volume # rest) backup_container_ids w)
           = Inl (Builtin IndexError)"
proof -
  have g: "get_extra_volumes_for_backup_container G = Inl (Builtin IndexError)"
    unfolding get_extra_volumes_for_backup_container_def
    by (rule extra_volumes_loop_single_field[OF assms])
  then have t: "\<And>w. trigger_backup G container volume server_name w = (Inl (Builtin IndexError), w)"
    by (simp add: trigger_backup_def)
  from g t show ?thesis by simp
qed

theorem single_field_extra_volume_raises_witness:
  "''/backup'' \<in> set (split_on CHR '','' (BACKUP_CONTAINER_VOLUMES
      (example_globals\<lparr>BACKUP_CONTAINER_VOLUMES := ''/repo:/repo,/backup''\<rparr>))) \<and>
   get_extra_volumes_for_backup_container
      (example_globals\<lparr>BACKUP_CONTAINER_VOLUMES := ''/repo:/repo,/backup''\<rparr>)
     = Inl (Builtin IndexError) \<and>
   trigger_backup (example_globals\<lparr>BACKUP_CONTAINER_VOLUMES := ''/repo:/repo,/backup''\<rparr>)
      example_web_info example_data_volume ''host1'' example_world
     = (Inl (Builtin IndexError), example_world)"
proof -
  have e: "''/backup'' \<in> set (split_on CHR '','' (BACKUP_CONTAINER_VOLUMES
      (example_globals\<lparr>BACKUP_CONTAINER_VOLUMES := ''/repo:/repo,/backup''\<rparr>)))"
    by simp
  have n: "''/backup'' \<noteq> []" by simp
  have c: "CHR '':'' \<notin> set ''/backup''" by simp
  from single_field_extra_volume_raises[OF e n c] e show ?thesis by blast
qed
















lemma emit_fields:
  "calls (emit r w) = calls w" "removed (emit r w) = removed w" "clock (emit r w) = clock w"
  "inspect (emit r w) = inspect w" "submit (emit r w) = submit w" "requests (emit r w) = requests w"
  "remove_failure (emit r w) = remove_failure w"
  by (simp_all add: emit_def)




section \<open>Properties of the command template\<close>

lemma get_field_object_unknown:
  "kwargs (takeWhile (\<lambda>c. c \<noteq> CHR ''.'' \<and> c \<noteq> CHR ''['') field_name) = None \<Longrightarrow>
   \<exists>e. get_field_object kwargs field_name = Inl e"
  by (simp add: get_field_object_def Let_def)

lemma render_field_unknown:
  "kwargs (takeWhile (\<lambda>c. c \<noteq> CHR ''.'' \<and> c \<noteq> CHR ''['') field_name) = None \<Longrightarrow>
   \<exists>e. render_field G kwargs (Replacement_field field_name conversion format_spec) = Inl e"
  using get_field_object_unknown[of kwargs field_name]
  by (auto simp: render_field_def)

lemma unknown_placeholder_raises:
  "p \<in> set (template_placeholders s) \<Longrightarrow> kwargs p = None \<Longrightarrow>
   \<exists>e. build_string G kwargs s = Inl e"
proof (induction s rule: template_placeholders.induct)
  case (1 s)
  show ?case
  proof (cases "s = []")
    case True
    with "1.prems" show ?thesis by (simp add: template_placeholders.simps)
  next
    case False
    show ?thesis
    proof (cases "MarkupIterator_next s")
      case (Inl e)
      with False show ?thesis by (simp add: build_string.simps[of G kwargs s])
    next
      case (Inr t)
      obtain literal field rest where t: "t = (literal, field, rest)" by (cases t)
      show ?thesis
      proof (cases "p \<in> set (template_placeholders rest)")
        case True
        from "1.IH"[OF False Inr t[symmetric] refl True "1.prems"(2)]
        obtain e where "build_string G kwargs rest = Inl e" by blast
        with False Inr t show ?thesis
          by (simp add: build_string.simps[of G kwargs s] split: sum.splits option.splits)
      next
        case no: False
        with "1.prems"(1) False Inr t obtain field_name conversion format_spec where
          f: "field = Some (Replacement_field field_name conversion format_spec)"
          and p: "p = takeWhile (\<lambda>c. c \<noteq> CHR ''.'' \<and> c \<noteq> CHR ''['') field_name"
          by (auto simp: template_placeholders.simps[of s]
              split: option.splits replacement_field.splits)
        from p "1.prems"(2)
        have "kwargs (takeWhile (\<lambda>c. c \<noteq> CHR ''.'' \<and> c \<noteq> CHR ''['') field_name) = None"
          by simp
        from render_field_unknown[of kwargs field_name G conversion format_spec, OF this]
        obtain e where "render_field G kwargs (Replacement_field field_name conversion format_spec) = Inl e"
          by blast
        with False Inr t f show ?thesis
          by (simp add: build_string.simps[of G kwargs s])
      qed
    qed
  qed
qed

text \<open>
  Claim C2, as stated, fails: with the command template \<open>backup {target}\<close> the first
  launch raises \<open>KeyError\<close>, the loop over the volumes stops there without sending
  any request for the second volume, and \<open>main\<close> ends with that exception.
\<close>

theorem unknown_placeholder_counterexample:
  "template_placeholders
      (BACKUP_CONTAINER_COMMAND (example_globals\<lparr>BACKUP_CONTAINER_COMMAND := ''backup {target}''\<rparr>))
     = [''target''] \<and>
   fst (launch_volumes (example_globals\<lparr>BACKUP_CONTAINER_COMMAND := ''backup {target}''\<rparr>)
          example_web_info ''host1'' [example_data_volume, example_conf_volume] []
          example_world) = Inl (Builtin (KeyError ''target'')) \<and>
   requests (snd (launch_volumes
          (example_globals\<lparr>BACKUP_CONTAINER_COMMAND := ''backup {target}''\<rparr>)
          example_web_info ''host1'' [example_data_volume, example_conf_volume] []
          example_world)) = [] \<and>
   map_option fst
     (main (example_globals\<lparr>BACKUP_CONTAINER_COMMAND := ''backup {target}''\<rparr>) example_world)
     = Some (Inl (Builtin (KeyError ''target'')))"
proof -
  have p: "template_placeholders
      (BACKUP_CONTAINER_COMMAND (example_globals\<lparr>BACKUP_CONTAINER_COMMAND := ''backup {target}''\<rparr>))
     = [''target'']"
    by (simp add: example_defs eval_defs template_placeholders.simps)
  have l: "launch_volumes (example_globals\<lparr>BACKUP_CONTAINER_COMMAND := ''backup {target}''\<rparr>)
          example_web_info ''host1'' [example_data_volume, example_conf_volume] []
          example_world
        = (Inl (Builtin (KeyError ''target'')),
           emit (Running_backup ''host1'' ''web'' ''c1'' (Some ''shop'') ''shop_data'')
             example_world)"
    by (simp add: example_defs eval_defs)
  have m: "map_option fst
     (main (example_globals\<lparr>BACKUP_CONTAINER_COMMAND := ''backup {target}''\<rparr>) example_world)
     = Some (Inl (Builtin (KeyError ''target'')))"
    by (simp add: example_defs eval_defs main_defs)
  from p l m show ?thesis by (simp add: emit_def example_world_def)
qed

text \<open>
  Claim C2, amended. If the extra volumes parse and the command template has a placeholder
  that is none of \<open>server_name\<close>, \<open>project_name\<close>, \<open>container_name\<close>,
  \<open>volume_name\<close> and \<open>volume_path\<close>, then rendering raises a built-in exception,
  \<open>_trigger_backup\<close> raises it to its caller before anything is sent to the daemon, and
  the loops over the volumes and the containers in \<open>main\<close>, which catch
  \<open>ContainerNotStartedException\<close> only, end with it: no later volume or container is
  processed.
\<close>

theorem unknown_placeholder_aborts_run:
  assumes "get_extra_volumes_for_backup_container G = Inr extra_volumes"
    and "p \<in> set (template_placeholders (BACKUP_CONTAINER_COMMAND G))"
    and "p \<notin> {''server_name'', ''project_name'', ''container_name'', ''volume_name'',
               ''volume_path''}"
  shows "\<exists>e. build_string G
                (command_kwargs container volume server_name
                   (md5_hexdigest G (vi_source volume)))
                (BACKUP_CONTAINER_COMMAND G) = Inl e \<and>
             trigger_backup G container volume server_name w = (Inl (Builtin e), w) \<and>
             fst (launch_volumes G container server_name (volume # rest) backup_container_ids w)
               = Inl (Builtin e) \<and>
             requests (snd (launch_volumes G container server_name (volume # rest)
                              backup_container_ids w)) = requests w \<and>
             (\<forall>others v.
                fst (get_included_container_volumes G container
                       (get_default (ci_labels container) (INCLUDE_BIND_MOUNTS_LABEL G) ''false''
                          = ''true'')
                       (emit (Found_container (ci_name container) (ci_project container)) v))
                  = Inr (volume # rest)
                \<longrightarrow> fst (launch_containers G server_name (container # others)
                           backup_container_ids v) = Inl (Builtin e))"
proof -
  have "command_kwargs container volume server_name (md5_hexdigest G (vi_source volume)) p = None"
    using assms(3) by (simp add: command_kwargs_def)
  from unknown_placeholder_raises[of p "BACKUP_CONTAINER_COMMAND G"
      "command_kwargs container volume server_name (md5_hexdigest G (vi_source volume))" G,
      OF assms(2) this] obtain e where
    e: "build_string G
          (command_kwargs container volume server_name (md5_hexdigest G (vi_source volume)))
          (BACKUP_CONTAINER_COMMAND G) = Inl e"
    by blast
  have t: "trigger_backup G container volume server_name v = (Inl (Builtin e), v)" for v
    using assms(1) e by (simp add: trigger_backup_def Let_def)
  have c: "\<forall>others v.
                fst (get_included_container_volumes G container
                       (get_default (ci_labels container) (INCLUDE_BIND_MOUNTS_LABEL G) ''false''
                          = ''true'')
                       (emit (Found_container (ci_name container) (ci_project container)) v))
                  = Inr (volume # rest)
                \<longrightarrow> fst (launch_containers G server_name (container # others)
                           backup_container_ids v) = Inl (Builtin e)"
  proof (intro allI impI)
    fix others v
    assume h: "fst (get_included_container_volumes G container
                       (get_default (ci_labels container) (INCLUDE_BIND_MOUNTS_LABEL G) ''false''
                          = ''true'')
                       (emit (Found_container (ci_name container) (ci_project container)) v))
                  = Inr (volume # rest)"
    obtain r w1 where g: "get_included_container_volumes G container
                       (get_default (ci_labels container) (INCLUDE_BIND_MOUNTS_LABEL G) ''false''
                          = ''true'')
                       (emit (Found_container (ci_name container) (ci_project container)) v)
                  = (r, w1)"
      by (cases "get_included_container_volumes G container
                       (get_default (ci_labels container) (INCLUDE_BIND_MOUNTS_LABEL G) ''false''
                          = ''true'')
                       (emit (Found_container (ci_name container) (ci_project container)) v)")
    with h have "r = Inr (volume # rest)" by simp
    with g show "fst (launch_containers G server_name (container # others)
                           backup_container_ids v) = Inl (Builtin e)"
      by (simp add: t)
  qed
  show ?thesis
    apply (rule exI[where x = e])
    apply (intro conjI)
        apply (rule e)
       apply (rule t)
      apply (simp add: t)
     apply (simp add: t emit_def)
    apply (rule c)
    done
qed


theorem unknown_placeholder_aborts_run_witness:
  "get_extra_volumes_for_backup_container
      (example_globals\<lparr>BACKUP_CONTAINER_COMMAND := ''backup {target}''\<rparr>) = Inr Map.empty \<and>
   ''target'' \<in> set (template_placeholders
      (BACKUP_CONTAINER_COMMAND (example_globals\<lparr>BACKUP_CONTAINER_COMMAND := ''backup {target}''\<rparr>))) \<and>
   ''target'' \<notin> {''server_name'', ''project_name'', ''container_name'', ''volume_name'',
               ''volume_path''} \<and>
   trigger_backup (example_globals\<lparr>BACKUP_CONTAINER_COMMAND := ''backup {target}''\<rparr>)
      example_web_info example_data_volume ''host1'' example_world
     = (Inl (Builtin (KeyError ''target'')), example_world)"
proof -
  let ?G = "example_globals\<lparr>BACKUP_CONTAINER_COMMAND := ''backup {target}''\<rparr>"
  have x: "get_extra_volumes_for_backup_container ?G = Inr Map.empty"
    by (simp add: example_defs eval_defs)
  have p: "''target'' \<in> set (template_placeholders (BACKUP_CONTAINER_COMMAND ?G))"
    by (simp add: example_defs eval_defs template_placeholders.simps)
  have n: "''target'' \<notin> {''server_name'', ''project_name'', ''container_name'', ''volume_name'',
               ''volume_path''}"
    by simp
  have b: "build_string ?G
                (command_kwargs example_web_info example_data_volume ''host1''
                   (md5_hexdigest ?G (vi_source example_data_volume)))
                (BACKUP_CONTAINER_COMMAND ?G) = Inl (KeyError ''target'')"
    by (simp add: example_defs eval_defs)
  from unknown_placeholder_aborts_run[where container = example_web_info
      and volume = example_data_volume and server_name = "''host1''" and w = example_world
      and rest = "[]" and backup_container_ids = "[]", OF x p n]
  obtain e where
    "build_string ?G
                (command_kwargs example_web_info example_data_volume ''host1''
                   (md5_hexdigest ?G (vi_source example_data_volume)))
                (BACKUP_CONTAINER_COMMAND ?G) = Inl e"
    and "trigger_backup ?G example_web_info example_data_volume ''host1'' example_world
           = (Inl (Builtin e), example_world)"
    by (elim exE conjE) (rule that, assumption+)
  with b have "trigger_backup ?G example_web_info example_data_volume ''host1'' example_world
           = (Inl (Builtin (KeyError ''target'')), example_world)"
    by simp
  with x p n show ?thesis by blast
qed

section \<open>Properties of the orchestrator\<close>

lemma wait_for_backups_missing_id:
  "wait_for_backups (None # ids) start_time w = Some (Inl NullResource, w)"
  by (subst wait_for_backups.simps)
     (simp add: get_container_exit_status_def containers_get_def)

lemma name_conflict_appends_None:
  assumes "get_extra_volumes_for_backup_container G = Inr extra_volumes"
    and "build_string G
           (command_kwargs container volume server_name (md5_hexdigest G (vi_source volume)))
           (BACKUP_CONTAINER_COMMAND G) = Inr command"
    and "submit w (calls w)
           \<lparr> rr_image = BACKUP_CONTAINER_IMAGE G, rr_command = command,
             rr_name = ''garrison_'' @ ci_id container @ ''_'' @ md5_hexdigest G (vi_source volume),
             rr_environment = os_environ G,
             rr_volumes = backup_volumes volume extra_volumes \<rparr> = Inl (APIError 409)"
  shows "fst (trigger_backup G container volume server_name w) = Inr None \<and>
         (\<exists>w'. launch_volumes G container server_name (volume # rest) backup_container_ids w
                 = launch_volumes G container server_name rest (backup_container_ids @ [None]) w')"
proof -
  have t: "fst (trigger_backup G container volume server_name v) = Inr None"
    if "calls v = calls w" "submit v = submit w" for v
    using assms that
    by (simp add: trigger_backup_def Let_def run_backup_container_def containers_run_def emit_def)
  let ?v = "emit (Running_backup server_name (ci_name container) (ci_id container)
                      (ci_project container)
                      (case vi_name volume of
                         None \<Rightarrow> vi_source volume
                       | Some n \<Rightarrow> if n \<noteq> [] then n else vi_source volume)) w"
  obtain r w' where p: "trigger_backup G container volume server_name ?v = (r, w')"
    by (cases "trigger_backup G container volume server_name ?v")
  with t[of ?v] have "r = Inr None" by (simp add: emit_fields)
  with p have "launch_volumes G container server_name (volume # rest) backup_container_ids w
                 = launch_volumes G container server_name rest (backup_container_ids @ [None]) w'"
    by simp
  with t[of w] show ?thesis by blast
qed

text \<open>
  Claim C1, evaluated where the daemon answers the run request with status 409. The
  launch returns \<open>None\<close> and raises nothing, as the claim says; but \<open>main\<close> appends
  that \<open>None\<close> to \<open>backup_container_ids\<close>, so the pair does get an entry in the tracked
  list, and the first status query of the wait loop, for the id \<open>None\<close>, ends the run with
  the docker client's \<open>NullResource\<close>.
\<close>

theorem name_conflict_sentinel_is_tracked:
  "submit example_name_conflict_world (calls example_name_conflict_world)
      \<lparr> rr_image = ''backup:latest'', rr_command = ''backup shop_data /data'',
        rr_name = ''garrison_c1_d41d8cd9'', rr_environment = Map.empty,
        rr_volumes = backup_volumes example_data_volume Map.empty \<rparr> = Inl (APIError 409) \<and>
   fst (trigger_backup example_globals example_web_info example_data_volume ''host1''
          example_name_conflict_world) = Inr None \<and>
   fst (launch_volumes example_globals example_web_info ''host1'' [example_data_volume] []
          example_name_conflict_world) = Inr [None] \<and>
   map_option fst (main example_globals example_name_conflict_world) = Some (Inl NullResource)"
proof -
  have t: "fst (trigger_backup example_globals example_web_info example_data_volume ''host1''
          example_name_conflict_world) = Inr None"
    by (simp add: example_name_conflict_world_def example_defs eval_defs)
  have l: "fst (launch_volumes example_globals example_web_info ''host1'' [example_data_volume] []
          example_name_conflict_world) = Inr [None]"
    by (simp add: example_name_conflict_world_def example_defs eval_defs)
  have m: "map_option fst (main example_globals example_name_conflict_world)
      = Some (Inl NullResource)"
    by (simp add: example_name_conflict_world_def example_defs eval_defs main_defs
        wait_for_backups_missing_id)
  from t l m show ?thesis
    by (simp add: example_name_conflict_world_def example_world_def)
qed

lemma get_container_exit_status_present:
  assumes "i \<noteq> []" and "i \<notin> set (removed w)" and "inspect w (calls w) i = Inr c"
  shows "get_container_exit_status (Some i) w =
           (Inr (if dc_status c \<noteq> ''exited'' then - 1 else dc_ExitCode c),
            w\<lparr>calls := calls w + 1\<rparr>)"
  using assms by (simp add: get_container_exit_status_def containers_get_def)

lemma all_exited_hanging:
  assumes "\<forall>cid \<in> set ids. \<exists>i. cid = Some i \<and> i \<noteq> [] \<and> i \<notin> set (removed w) \<and>
             (\<forall>n. \<exists>c. inspect w n i = Inr c)"
    and "\<exists>i. Some i \<in> set ids \<and> (\<forall>n. \<exists>c. inspect w n i = Inr c \<and> dc_status c \<noteq> ''exited'')"
  shows "\<exists>w1. all_exited ids w = (Inr False, w1) \<and> inspect w1 = inspect w \<and>
              removed w1 = removed w \<and> clock w1 = clock w"
  using assms
proof (induction ids arbitrary: w)
  case Nil
  then show ?case by simp
next
  case (Cons cid ids)
  from Cons.prems(1) obtain i where i: "cid = Some i" "i \<noteq> []" "i \<notin> set (removed w)"
    and ins: "\<forall>n. \<exists>c. inspect w n i = Inr c"
    by auto
  from ins obtain c where c: "inspect w (calls w) i = Inr c" by blast
  let ?w1 = "w\<lparr>calls := calls w + 1\<rparr>"
  note g = get_container_exit_status_present[OF i(2,3) c]
  show ?case
  proof (cases "(if dc_status c \<noteq> ''exited'' then - 1 else dc_ExitCode c) \<noteq> - 1")
    case False
    with g i(1) show ?thesis by simp
  next
    case True
    then have ex: "dc_status c = ''exited''" by (simp split: if_splits)
    from Cons.prems(2) obtain j where j: "Some j \<in> set (cid # ids)"
      and h: "\<forall>n. \<exists>c. inspect w n j = Inr c \<and> dc_status c \<noteq> ''exited''"
      by blast
    from h c ex have "j \<noteq> i" by (metis Inl_Inr_False sum.inject(2))
    with j i(1) have j': "Some j \<in> set ids" by simp
    have p1: "\<forall>cid \<in> set ids. \<exists>i. cid = Some i \<and> i \<noteq> [] \<and> i \<notin> set (removed ?w1) \<and>
             (\<forall>n. \<exists>c. inspect ?w1 n i = Inr c)"
      using Cons.prems(1) by simp
    have p2: "\<exists>i. Some i \<in> set ids \<and>
        (\<forall>n. \<exists>c. inspect ?w1 n i = Inr c \<and> dc_status c \<noteq> ''exited'')"
      using j' h by auto
    from Cons.IH[OF p1 p2] obtain w2 where
      "all_exited ids ?w1 = (Inr False, w2)" "inspect w2 = inspect w" "removed w2 = removed w"
      "clock w2 = clock w"
      by auto
    with g i(1) True show ?thesis by simp
  qed
qed

lemma wait_for_backups_hanging_aux:
  assumes run: "wait_for_backups ids start_time w = Some y"
  shows "\<not> ((\<forall>cid \<in> set ids. \<exists>i. cid = Some i \<and> i \<noteq> [] \<and> i \<notin> set (removed w) \<and>
             (\<forall>n. \<exists>c. inspect w n i = Inr c)) \<and>
      (\<exists>i. Some i \<in> set ids \<and>
             (\<forall>n. \<exists>c. inspect w n i = Inr c \<and> dc_status c \<noteq> ''exited'')))"
proof (rule wait_for_backups.raw_induct[where P = "\<lambda>ids start_time w y.
   \<not> ((\<forall>cid \<in> set ids. \<exists>i. cid = Some i \<and> i \<noteq> [] \<and> i \<notin> set (removed w) \<and>
             (\<forall>n. \<exists>c. inspect w n i = Inr c)) \<and>
      (\<exists>i. Some i \<in> set ids \<and>
             (\<forall>n. \<exists>c. inspect w n i = Inr c \<and> dc_status c \<noteq> ''exited'')))", OF _ run],
    goal_cases)
  case (1 wait ids start_time w y)
  note IH = 1(1) and eq = 1(2)
  show ?case
  proof
    assume inv: "(\<forall>cid \<in> set ids. \<exists>i. cid = Some i \<and> i \<noteq> [] \<and> i \<notin> set (removed w) \<and>
             (\<forall>n. \<exists>c. inspect w n i = Inr c)) \<and>
      (\<exists>i. Some i \<in> set ids \<and>
             (\<forall>n. \<exists>c. inspect w n i = Inr c \<and> dc_status c \<noteq> ''exited''))"
    then obtain w1 where a: "all_exited ids w = (Inr False, w1)"
      and f: "inspect w1 = inspect w" "removed w1 = removed w"
      using all_exited_hanging[of ids w] by blast
    from eq a have "wait ids start_time (sleep 5 w1) = Some y" by simp
    from IH[OF this] inv f show False by (simp add: sleep_def)
  qed
qed

lemma wait_for_backups_hanging:
  assumes "\<forall>cid \<in> set ids. \<exists>i. cid = Some i \<and> i \<noteq> [] \<and> i \<notin> set (removed w) \<and>
             (\<forall>n. \<exists>c. inspect w n i = Inr c)"
    and "\<exists>i. Some i \<in> set ids \<and> (\<forall>n. \<exists>c. inspect w n i = Inr c \<and> dc_status c \<noteq> ''exited'')"
  shows "wait_for_backups ids start_time w = None"
proof (cases "wait_for_backups ids start_time w")
  case None
  then show ?thesis .
next
  case (Some y)
  from wait_for_backups_hanging_aux[OF Some] assms show ?thesis by blast
qed

lemma wait_for_backups_single_hanging:
  "i \<noteq> [] \<Longrightarrow> i \<notin> set (removed w) \<Longrightarrow>
   (\<forall>n. \<exists>c. inspect w n i = Inr c \<and> dc_status c \<noteq> ''exited'') \<Longrightarrow>
   wait_for_backups [Some i] start_time w = None"
  by (rule wait_for_backups_hanging) auto


text \<open>
  Claim C3, evaluated where the one backup job stays in the status \<open>running\<close>. The job
  is launched and tracked, and the wait loop never ends: the test of the deadline of 120
  units has the empty body \<open>pass\<close>, so the loop sleeps and polls again for ever and
  \<open>main\<close> never reaches the cleanup. (The lemma \<open>wait_for_backups_hanging\<close> above
  shows this for every list of tracked jobs of which one never exits while all can be
  inspected.)
\<close>

theorem deadline_does_not_end_wait:
  "fst (launch_containers example_globals ''host1'' [example_web_info] []
          example_hanging_world) = Inr [Some ''job_garrison_c1_d41d8cd9''] \<and>
   wait_for_backups [Some ''job_garrison_c1_d41d8cd9''] 0
     (snd (launch_containers example_globals ''host1'' [example_web_info] []
             example_hanging_world)) = None \<and>
   main example_globals example_hanging_world = None"
proof -
  have l: "fst (launch_containers example_globals ''host1'' [example_web_info] []
          example_hanging_world) = Inr [Some ''job_garrison_c1_d41d8cd9'']"
    by (simp add: example_hanging_world_def example_defs eval_defs main_defs)
  have w: "wait_for_backups [Some ''job_garrison_c1_d41d8cd9''] 0
     (snd (launch_containers example_globals ''host1'' [example_web_info] []
             example_hanging_world)) = None"
    by (simp add: example_hanging_world_def example_defs eval_defs main_defs
        wait_for_backups_single_hanging)
  have m: "main example_globals example_hanging_world = None"
    by (simp add: example_hanging_world_def example_defs eval_defs main_defs
        wait_for_backups_single_hanging)
  from l w m show ?thesis by simp
qed

lemma get_container_exit_status_fields:
  "get_container_exit_status cid w = (r, w1) \<Longrightarrow>
   removed w1 = removed w \<and> inspect w1 = inspect w \<and> remove_failure w1 = remove_failure w \<and>
   clock w1 = clock w \<and> log w1 = log w"
  by (auto simp: get_container_exit_status_def containers_get_def
      split: option.splits if_splits sum.splits)

lemma remove_container_not_found_is_success:
  "fst (remove_container container_id w) \<noteq> Inl NotFound"
  by (auto simp: remove_container_def split: prod.splits sum.splits)

lemma remove_container_removes:
  assumes "i \<noteq> []" and "i \<notin> set (removed w)"
    and "inspect w (calls w) i = Inr c"
    and "remove_failure w (calls w + 1) (dc_id c) = None"
  shows "fst (remove_container (Some i) w) = Inr () \<and>
         removed (snd (remove_container (Some i) w)) = removed w @ [dc_id c]"
  using assms
  by (simp add: remove_container_def containers_get_def container_remove_def emit_def)

lemma remove_container_already_gone:
  assumes "i \<noteq> []"
    and "i \<in> set (removed w) \<or> inspect w (calls w) i = Inl NotFound"
  shows "fst (remove_container (Some i) w) = Inr () \<and>
         removed (snd (remove_container (Some i) w)) = removed w"
  using assms
  by (auto simp: remove_container_def containers_get_def emit_def)

lemma remove_container_gone_meanwhile:
  assumes "i \<noteq> []" and "i \<notin> set (removed w)"
    and "inspect w (calls w) i = Inr c"
    and "remove_failure w (calls w + 1) (dc_id c) = Some NotFound"
  shows "fst (remove_container (Some i) w) = Inr () \<and>
         removed (snd (remove_container (Some i) w)) = removed w"
  using assms
  by (simp add: remove_container_def containers_get_def container_remove_def emit_def)

text \<open>
  Claim C7. Take one iteration of the loop after the wait loop, for a tracked job whose
  exit status can be read. If the status is not zero, the iteration logs the warning
  \<open>Did_not_exit_with_success\<close>, removes nothing and goes on with the next job. If it is
  zero, the iteration calls \<open>remove_container\<close>, which never raises \<open>NotFound\<close>: when
  the container is found and the daemon removes it, it joins the removed containers; when
  it is not found, at the lookup or at the removal itself, the call returns normally and
  nothing is removed.
\<close>

theorem cleanup_of_tracked_job:
  assumes "get_container_exit_status container_id w = (Inr status, w1)"
  shows "(status \<noteq> 0 \<longrightarrow>
            cleanup_loop (container_id # rest) w
              = cleanup_loop rest (emit (Did_not_exit_with_success container_id) w1) \<and>
            log (emit (Did_not_exit_with_success container_id) w1)
              = log w @ [Did_not_exit_with_success container_id] \<and>
            level_of (Did_not_exit_with_success container_id) = WARNING \<and>
            removed (emit (Did_not_exit_with_success container_id) w1) = removed w) \<and>
         (status = 0 \<longrightarrow>
            cleanup_loop (container_id # rest) w
              = (case remove_container container_id w1 of
                   (Inl e, w2) \<Rightarrow> (Inl e, w2)
                 | (Inr u, w2) \<Rightarrow> cleanup_loop rest w2) \<and>
            fst (remove_container container_id w1) \<noteq> Inl NotFound \<and>
            (\<forall>i c. container_id = Some i \<and> i \<notin> set (removed w1) \<and>
                   inspect w1 (calls w1) i = Inr c \<and>
                   remove_failure w1 (calls w1 + 1) (dc_id c) = None
               \<longrightarrow> fst (remove_container container_id w1) = Inr () \<and>
                   removed (snd (remove_container container_id w1)) = removed w @ [dc_id c]) \<and>
            (\<forall>i c. container_id = Some i \<and>
                   (i \<in> set (removed w1) \<or> inspect w1 (calls w1) i = Inl NotFound \<or>
                    i \<notin> set (removed w1) \<and> inspect w1 (calls w1) i = Inr c \<and>
                    remove_failure w1 (calls w1 + 1) (dc_id c) = Some NotFound)
               \<longrightarrow> fst (remove_container container_id w1) = Inr () \<and>
                   removed (snd (remove_container container_id w1)) = removed w))"
proof -
  note f = get_container_exit_status_fields[OF assms]
  have ne: "i \<noteq> []" if "container_id = Some i" for i
    using assms that
    by (auto simp: get_container_exit_status_def containers_get_def split: if_splits)
  have a: "status \<noteq> 0 \<longrightarrow>
            cleanup_loop (container_id # rest) w
              = cleanup_loop rest (emit (Did_not_exit_with_success container_id) w1) \<and>
            log (emit (Did_not_exit_with_success container_id) w1)
              = log w @ [Did_not_exit_with_success container_id] \<and>
            level_of (Did_not_exit_with_success container_id) = WARNING \<and>
            removed (emit (Did_not_exit_with_success container_id) w1) = removed w"
    using assms f by (simp add: emit_def)
  have b1: "status = 0 \<longrightarrow>
            cleanup_loop (container_id # rest) w
              = (case remove_container container_id w1 of
                   (Inl e, w2) \<Rightarrow> (Inl e, w2)
                 | (Inr u, w2) \<Rightarrow> cleanup_loop rest w2)"
    using assms by simp
  have b3: "\<forall>i c. container_id = Some i \<and> i \<notin> set (removed w1) \<and>
                   inspect w1 (calls w1) i = Inr c \<and>
                   remove_failure w1 (calls w1 + 1) (dc_id c) = None
               \<longrightarrow> fst (remove_container container_id w1) = Inr () \<and>
                   removed (snd (remove_container container_id w1)) = removed w @ [dc_id c]"
    using remove_container_removes[of _ w1] ne f by auto
  have b4: "\<forall>i c. container_id = Some i \<and>
                   (i \<in> set (removed w1) \<or> inspect w1 (calls w1) i = Inl NotFound \<or>
                    i \<notin> set (removed w1) \<and> inspect w1 (calls w1) i = Inr c \<and>
                    remove_failure w1 (calls w1 + 1) (dc_id c) = Some NotFound)
               \<longrightarrow> fst (remove_container container_id w1) = Inr () \<and>
                   removed (snd (remove_container container_id w1)) = removed w"
  proof (intro allI impI)
    fix i c
    assume h: "container_id = Some i \<and>
                   (i \<in> set (removed w1) \<or> inspect w1 (calls w1) i = Inl NotFound \<or>
                    i \<notin> set (removed w1) \<and> inspect w1 (calls w1) i = Inr c \<and>
                    remove_failure w1 (calls w1 + 1) (dc_id c) = Some NotFound)"
    then have i: "i \<noteq> []" using ne by blast
    from h consider "i \<in> set (removed w1) \<or> inspect w1 (calls w1) i = Inl NotFound"
      | "i \<notin> set (removed w1)" "inspect w1 (calls w1) i = Inr c"
        "remove_failure w1 (calls w1 + 1) (dc_id c) = Some NotFound"
      by blast
    then show "fst (remove_container container_id w1) = Inr () \<and>
                   removed (snd (remove_container container_id w1)) = removed w"
    proof cases
      case 1
      from remove_container_already_gone[OF i 1] h f show ?thesis by simp
    next
      case 2
      from remove_container_gone_meanwhile[OF i 2] h f show ?thesis by simp
    qed
  qed
  from a b1 b3 b4 remove_container_not_found_is_success[of container_id w1]
  show ?thesis by blast
qed


theorem cleanup_of_tracked_job_witness:
  "get_container_exit_status (Some ''job_b'') example_finished_world
     = (Inr 137, example_finished_world\<lparr>calls := 1\<rparr>) \<and>
   cleanup_loop [Some ''job_b''] example_finished_world
     = (Inr (), emit (Did_not_exit_with_success (Some ''job_b''))
                  (example_finished_world\<lparr>calls := 1\<rparr>)) \<and>
   get_container_exit_status (Some ''job_a'') example_finished_world
     = (Inr 0, example_finished_world\<lparr>calls := 1\<rparr>) \<and>
   fst (remove_container (Some ''job_a'') (example_finished_world\<lparr>calls := 1\<rparr>)) = Inr () \<and>
   removed (snd (remove_container (Some ''job_a'') (example_finished_world\<lparr>calls := 1\<rparr>)))
     = [''job_a''] \<and>
   fst (cleanup_loop [Some ''job_a'', Some ''job_b''] example_finished_world) = Inr () \<and>
   removed (snd (cleanup_loop [Some ''job_a'', Some ''job_b''] example_finished_world))
     = [''job_a''] \<and>
   log (snd (cleanup_loop [Some ''job_a'', Some ''job_b''] example_finished_world))
     = [Removing_container (Some ''job_a''), Successfully_removed (Some ''job_a''),
        Did_not_exit_with_success (Some ''job_b'')]"
proof -
  let ?w1 = "example_finished_world\<lparr>calls := 1\<rparr>"
  have b: "get_container_exit_status (Some ''job_b'') example_finished_world = (Inr 137, ?w1)"
    by (simp add: example_finished_world_def example_defs main_defs eval_defs)
  have a: "get_container_exit_status (Some ''job_a'') example_finished_world = (Inr 0, ?w1)"
    by (simp add: example_finished_world_def example_defs main_defs eval_defs)
  from cleanup_of_tracked_job[OF b, of "[]"]
  have lb: "cleanup_loop [Some ''job_b''] example_finished_world
     = (Inr (), emit (Did_not_exit_with_success (Some ''job_b'')) ?w1)"
    by simp
  have pa: "Some ''job_a'' = Some ''job_a'' \<and> ''job_a'' \<notin> set (removed ?w1) \<and>
      inspect ?w1 (calls ?w1) ''job_a'' = Inr (example_job ''job_a'' ''exited'' 0) \<and>
      remove_failure ?w1 (calls ?w1 + 1) (dc_id (example_job ''job_a'' ''exited'' 0)) = None"
    by (simp add: example_finished_world_def example_world_def)
  from cleanup_of_tracked_job[OF a, of "[]"] pa
  have ra: "fst (remove_container (Some ''job_a'') ?w1) = Inr () \<and>
      removed (snd (remove_container (Some ''job_a'') ?w1))
        = removed example_finished_world @ [dc_id (example_job ''job_a'' ''exited'' 0)]"
    by blast
  then have ra': "fst (remove_container (Some ''job_a'') ?w1) = Inr ()"
    "removed (snd (remove_container (Some ''job_a'') ?w1)) = [''job_a'']"
    by (simp_all add: example_finished_world_def example_world_def example_job_def)
  have l: "cleanup_loop [Some ''job_a'', Some ''job_b''] example_finished_world
     = (Inr (), example_finished_world\<lparr>calls := 4, removed := [''job_a''],
          log := [Removing_container (Some ''job_a''), Successfully_removed (Some ''job_a''),
                  Did_not_exit_with_success (Some ''job_b'')]\<rparr>)"
    by (simp add: example_finished_world_def example_defs main_defs eval_defs)
  from b a lb ra' show ?thesis unfolding l by simp
qed

end
